theory Spec2Isabelle
  imports Complex_Main "HOL-Library.Multiset" "HOL-Library.Sublist" "HOL-Library.Log_Nat"
begin

section \<open>EdgeEngine: \<^verbatim>\<open>AIService.calculate_market_edge\<close>\<close>

text \<open>
  Source: \<^verbatim>\<open>backend/services/ai_service.py\<close>, \<^verbatim>\<open>calculate_market_edge\<close>.
  The normalisation of the probability (lines 751--754) is modelled on the real values
  of the floats. The edge metrics (lines 786--805) are modelled on binary64 values with
  the rounding of every operation, since the rounding shows in what they return.
\<close>

text \<open>
  Lines 751--754:
  \<^verbatim>\<open>if ai_probability > 1.0: ai_probability = ai_probability / 100\<close>
  \<^verbatim>\<open>ai_probability = max(0.01, min(0.99, ai_probability))\<close>
\<close>

definition normalize_probability :: "real \<Rightarrow> real" where
  "normalize_probability v =
     (let p = (if v > 1.0 then v / 100 else v)
      in max 0.01 (min 0.99 p))"

subsection \<open>Python floats: IEEE 754 binary64\<close>

text \<open>
  A Python \<^verbatim>\<open>float\<close> is a binary64 value: a finite number \<open>m * 2 ^ e\<close> with an integer
  \<open>m\<close> of at most 53 bits and \<open>e\<close> between \<open>-1074\<close> and 971, or an infinity (\<open>True\<close>
  for the negative one), or not-a-number. The sign of a zero is not represented: the
  edge metrics pass every difference through \<^verbatim>\<open>abs\<close> and read the price through
  comparisons, which do not tell the two zeros apart.
\<close>

datatype double = Finite int int | Infinity bool | NaN

text \<open>The real number a finite value stands for.\<close>

definition valof :: "double \<Rightarrow> real option" where
  "valof x =
     (case x of
        Finite m e \<Rightarrow> Some (if e \<ge> 0 then of_int m * 2 ^ nat e else of_int m / 2 ^ nat (- e))
      | Infinity s \<Rightarrow> None
      | NaN \<Rightarrow> None)"

text \<open>
  Rounding to nearest, ties to even. \<open>round_half_even num den\<close> is the integer nearest
  to \<open>num / den\<close>, the even one of two equally near. \<open>scaled a d s\<close> is the fraction
  \<open>a * 2 ^ s / d\<close> as numerator and denominator.

  \<open>round_to_double negative a d e\<close> is the binary64 value nearest to
  \<open>a / d * 2 ^ e\<close> (\<open>a \<ge> 0\<close>, \<open>d > 0\<close>), negated when \<open>negative\<close>: the scaling \<open>s1\<close> makes
  the quotient a mantissa of exactly 53 bits; below the normal range the exponent stays
  at \<open>-1074\<close> and the mantissa gets shorter (gradual underflow); a result of
  \<open>2 ^ 1024\<close> or more is the infinity. A finite result is \<open>Finite 0 0\<close> or has a
  mantissa of 53 bits, or the exponent \<open>-1074\<close>, so that equal values are equal terms.
\<close>

definition round_half_even :: "int \<Rightarrow> int \<Rightarrow> int" where
  "round_half_even num den =
     (let q = num div den; r = num mod den
      in if 2 * r < den then q
         else if 2 * r > den then q + 1
         else if even q then q else q + 1)"

definition scaled :: "int \<Rightarrow> int \<Rightarrow> int \<Rightarrow> int \<times> int" where
  "scaled a d s = (if s \<ge> 0 then (a * 2 ^ nat s, d) else (a, d * 2 ^ nat (- s)))"

definition round_to_double :: "bool \<Rightarrow> int \<Rightarrow> int \<Rightarrow> int \<Rightarrow> double" where
  "round_to_double negative a d e =
     (if a = 0 then Finite 0 0
      else (let k = bitlen a - bitlen d;
                s0 = 53 - k;
                (n0, d0) = scaled a d s0;
                s1 = (if n0 div d0 \<ge> 2 ^ 53 then s0 - 1 else s0);
                s = (if e - s1 < - 1074 then e + 1074 else s1);
                (num, den) = scaled a d s;
                q = round_half_even num den;
                (q', ex) = (if q = 2 ^ 53 then (2 ^ 52, e - s + 1) else (q, e - s))
            in if q' = 0 then Finite 0 0
               else if bitlen q' + ex > 1024 then Infinity negative
               else Finite (if negative then - q' else q') ex))"

text \<open>
  A decimal literal of the source, such as \<^verbatim>\<open>0.1\<close> (\<open>float_literal 1 10\<close>), and an
  integer operand converted to float, such as \<^verbatim>\<open>100\<close> (\<open>float_literal 100 1\<close>): the
  binary64 value nearest to \<open>n / d\<close>.
\<close>

definition float_literal :: "int \<Rightarrow> int \<Rightarrow> double" where
  "float_literal n d = round_to_double False n d 0"

text \<open>
  The operations of the edge metrics: \<^verbatim>\<open>x - y\<close>, \<^verbatim>\<open>x * y\<close>, \<^verbatim>\<open>x / y\<close>, \<^verbatim>\<open>abs(x)\<close> and
  \<^verbatim>\<open>x > y\<close>. Each arithmetic operation returns the exact result rounded; an overflow
  gives an infinity and raises nothing. Python raises \<^verbatim>\<open>ZeroDivisionError\<close> on a zero
  divisor, whatever the dividend: \<open>fdiv\<close> returns \<open>None\<close> there. A comparison with
  not-a-number is false.
\<close>

fun fsub :: "double \<Rightarrow> double \<Rightarrow> double" where
  "fsub NaN y = NaN"
| "fsub x NaN = NaN"
| "fsub (Infinity s) (Infinity t) = (if s = t then NaN else Infinity s)"
| "fsub (Infinity s) (Finite m e) = Infinity s"
| "fsub (Finite m e) (Infinity t) = Infinity (\<not> t)"
| "fsub (Finite m1 e1) (Finite m2 e2) =
     (let e = min e1 e2;
          n = m1 * 2 ^ nat (e1 - e) - m2 * 2 ^ nat (e2 - e)
      in round_to_double (n < 0) \<bar>n\<bar> 1 e)"

fun fmul :: "double \<Rightarrow> double \<Rightarrow> double" where
  "fmul NaN y = NaN"
| "fmul x NaN = NaN"
| "fmul (Infinity s) (Infinity t) = Infinity (s \<noteq> t)"
| "fmul (Infinity s) (Finite m e) = (if m = 0 then NaN else Infinity (s \<noteq> (m < 0)))"
| "fmul (Finite m e) (Infinity t) = (if m = 0 then NaN else Infinity ((m < 0) \<noteq> t))"
| "fmul (Finite m1 e1) (Finite m2 e2) =
     round_to_double (m1 * m2 < 0) \<bar>m1 * m2\<bar> 1 (e1 + e2)"

fun fdiv :: "double \<Rightarrow> double \<Rightarrow> double option" where
  "fdiv x (Finite m2 e2) =
     (if m2 = 0 then None
      else (case x of
              NaN \<Rightarrow> Some NaN
            | Infinity s \<Rightarrow> Some (Infinity (s \<noteq> (m2 < 0)))
            | Finite m1 e1 \<Rightarrow>
                Some (round_to_double ((m1 < 0) \<noteq> (m2 < 0)) \<bar>m1\<bar> \<bar>m2\<bar> (e1 - e2))))"
| "fdiv x NaN = Some NaN"
| "fdiv x (Infinity t) = (case x of Finite m1 e1 \<Rightarrow> Some (Finite 0 0) | _ \<Rightarrow> Some NaN)"

fun fabs :: "double \<Rightarrow> double" where
  "fabs (Finite m e) = Finite \<bar>m\<bar> e"
| "fabs (Infinity s) = Infinity False"
| "fabs NaN = NaN"

fun fgt :: "double \<Rightarrow> double \<Rightarrow> bool" where
  "fgt NaN y = False"
| "fgt x NaN = False"
| "fgt (Infinity s) (Infinity t) = (\<not> s \<and> t)"
| "fgt (Infinity s) (Finite m e) = (\<not> s)"
| "fgt (Finite m e) (Infinity t) = t"
| "fgt (Finite m1 e1) (Finite m2 e2) =
     (let e = min e1 e2 in m1 * 2 ^ nat (e1 - e) > m2 * 2 ^ nat (e2 - e))"

subsection \<open>The edge metrics\<close>

datatype confidence = HIGH | MEDIUM | LOW

datatype recommendation = BUY | SELL

record edge_result =
  ai_probability :: double
  market_price :: double
  absolute_edge :: double
  relative_edge :: double
  kelly_size :: double
  recommendation :: recommendation
  confidence :: confidence

text \<open>
  Lines 786--805, the edge metrics computed from the normalised probability \<open>p\<close> and
  the current market price \<open>m\<close>:
  \<^verbatim>\<open>absolute_edge = abs(ai_probability - current_market_price)\<close>
  \<^verbatim>\<open>relative_edge = (absolute_edge / current_market_price) * 100 if current_market_price > 0 else 0\<close>
  \<^verbatim>\<open>kelly_size = absolute_edge * 2\<close>
  and the dictionary returned. The result \<open>None\<close> is a \<^verbatim>\<open>ZeroDivisionError\<close> of the
  division.
\<close>

definition edge_metrics :: "double \<Rightarrow> double \<Rightarrow> edge_result option" where
  "edge_metrics p m =
     (let abs_edge = fabs (fsub p m);
          rel_edge = (if fgt m (Finite 0 0)
                      then (case fdiv abs_edge m of
                              None \<Rightarrow> None
                            | Some q \<Rightarrow> Some (fmul q (float_literal 100 1)))
                      else Some (Finite 0 0))
      in case rel_edge of
           None \<Rightarrow> None
         | Some rel \<Rightarrow>
             (let kelly = fmul abs_edge (float_literal 2 1)
              in Some \<lparr> ai_probability = p,
                        market_price = m,
                        absolute_edge = abs_edge,
                        relative_edge = rel,
                        kelly_size = kelly,
                        recommendation = (if fgt p m then BUY else SELL),
                        confidence = (if fgt abs_edge (float_literal 1 10) then HIGH
                                      else if fgt abs_edge (float_literal 5 100) then MEDIUM
                                      else LOW) \<rparr>))"

section \<open>Categorizer: \<^verbatim>\<open>Polymarket.detect_category\<close>\<close>

text \<open>
  Source: \<^verbatim>\<open>backend/agents/data/polymarket/client.py\<close>, lines 920--1005. The function
  returns one of nine fixed strings; they are the constructors of \<open>category\<close>.
  Strings are lists of 8-bit characters, and \<^verbatim>\<open>str.lower\<close> is modelled on the ASCII
  letters (every keyword of the source is ASCII).
\<close>

datatype category =
  Politics | Sports | Crypto | Tech | Entertainment | Economy | Climate | Health | Other

definition lower_char :: "char \<Rightarrow> char" where
  "lower_char c =
     (let n = (of_char c :: nat)
      in if 65 \<le> n \<and> n \<le> 90 then char_of (n + 32) else c)"

definition lower :: "string \<Rightarrow> string" where
  "lower s = map lower_char s"

text \<open>Python's \<^verbatim>\<open>keyword in question\<close> on strings: \<open>keyword\<close> occurs as a contiguous run.\<close>

definition contains :: "string \<Rightarrow> string \<Rightarrow> bool" where
  "contains question keyword = sublist keyword question"

text \<open>\<^verbatim>\<open>any(keyword in question for keyword in keywords)\<close>\<close>

definition any_keyword :: "string list \<Rightarrow> string \<Rightarrow> bool" where
  "any_keyword keywords question = list_ex (contains question) keywords"

definition politics_keywords :: "string list" where
  "politics_keywords =
    [''election'', ''president'', ''presidential'', ''vote'', ''voting'', ''congress'',
     ''senate'', ''senator'', ''minister'', ''government'', ''governor'', ''mayor'',
     ''politician'', ''political'', ''candidate'', ''fed'', ''federal'', ''rate'',
     ''interest'', ''chancellor'', ''prime minister'', ''biden'', ''trump'', ''harris'',
     ''desantis'', ''republican'', ''democrat'', ''gop'', ''party'', ''campaign'',
     ''debate'', ''poll'', ''electoral'', ''impeach'', ''cabinet'', ''white house'',
     ''policy'', ''law'', ''legislation'', ''supreme court'', ''justice'', ''scotus'',
     ''midterm'', ''2024'', ''2025'', ''inauguration'']"

definition sports_keywords :: "string list" where
  "sports_keywords =
    [''nba'', ''nfl'', ''mlb'', ''nhl'', ''soccer'', ''football'', ''basketball'',
     ''baseball'', ''hockey'', ''league'', ''cup'', ''championship'', ''playoffs'',
     ''win'', ''wins'', ''relegated'', ''super bowl'', ''world cup'', ''olympics'',
     ''fifa'', ''uefa'', ''champions league'', ''epl'', ''premier league'', ''la liga'',
     ''bundesliga'', ''serie a'', ''mvp'', ''rookie'', ''draft'', ''trade'', ''player'',
     ''team'', ''coach'', ''manager'', ''season'', ''finals'', ''semifinal'',
     ''quarterback'', ''goal'', ''touchdown'', ''home run'', ''points'', ''score'',
     ''games'', ''match'', ''tournament'', ''tennis'', ''golf'', ''pga'', ''masters'',
     ''wimbledon'', ''open'', ''formula 1'', ''f1'', ''racing'']"

definition crypto_keywords :: "string list" where
  "crypto_keywords =
    [''bitcoin'', ''btc'', ''ethereum'', ''eth'', ''crypto'', ''cryptocurrency'',
     ''token'', ''blockchain'', ''opensea'', ''nft'', ''defi'', ''solana'', ''sol'',
     ''cardano'', ''ada'', ''dogecoin'', ''doge'', ''binance'', ''coinbase'', ''exchange'',
     ''wallet'', ''mining'', ''hash'', ''altcoin'', ''satoshi'', ''web3'', ''dao'',
     ''smart contract'', ''yield'', ''staking'', ''liquidity'', ''usd'', ''usdc'',
     ''price'', ''$100'', ''$50'', ''$1000'', ''coin'', ''market cap'', ''volume'',
     ''trading'']"

definition entertainment_keywords :: "string list" where
  "entertainment_keywords =
    [''movie'', ''film'', ''actor'', ''actress'', ''director'', ''award'', ''oscar'',
     ''academy'', ''golden globe'', ''emmy'', ''grammy'', ''song'', ''album'', ''artist'',
     ''singer'', ''show'', ''tv'', ''television'', ''streaming'', ''netflix'', ''disney'',
     ''marvel'', ''star wars'', ''hollywood'', ''box office'', ''celebrity'', ''fame'',
     ''concert'', ''tour'', ''music'', ''video'', ''youtube'', ''tiktok'', ''instagram'',
     ''social media'', ''influencer'', ''podcast'', ''series'', ''season'', ''episode'']"

definition tech_keywords :: "string list" where
  "tech_keywords =
    [''ai'', ''artificial intelligence'', ''openai'', ''chatgpt'', ''gpt'', ''technology'',
     ''software'', ''app'', ''application'', ''launch'', ''google'', ''apple'',
     ''microsoft'', ''meta'', ''facebook'', ''amazon'', ''tesla'', ''elon musk'',
     ''twitter'', ''x.com'', ''iphone'', ''android'', ''ios'', ''startup'', ''ipo'',
     ''stock'', ''valuation'', ''revenue'', ''company'', ''ceo'', ''tech'', ''computer'',
     ''robot'', ''automation'', ''cloud'', ''data'', ''internet'', ''cyber'', ''security'']"

definition economy_keywords :: "string list" where
  "economy_keywords =
    [''economy'', ''economic'', ''recession'', ''inflation'', ''gdp'', ''unemployment'',
     ''jobs'', ''market'', ''stock market'', ''dow'', ''nasdaq'', ''s&p'', ''sp500'',
     ''bear market'', ''bull market'', ''interest rate'', ''federal reserve'', ''bank'',
     ''banking'', ''finance'', ''financial'', ''dollar'', ''euro'', ''currency'',
     ''trade'', ''tariff'', ''debt'', ''deficit'', ''budget'']"

definition climate_keywords :: "string list" where
  "climate_keywords =
    [''climate'', ''global warming'', ''temperature'', ''weather'', ''hurricane'',
     ''storm'', ''flood'', ''drought'', ''wildfire'', ''carbon'', ''emissions'',
     ''renewable'', ''solar'', ''wind'', ''electric'', ''ev'', ''environment'', ''green'',
     ''sustainability'']"

definition health_keywords :: "string list" where
  "health_keywords =
    [''health'', ''medical'', ''disease'', ''virus'', ''vaccine'', ''covid'', ''pandemic'',
     ''hospital'', ''doctor'', ''medicine'', ''drug'', ''fda'', ''approval'',
     ''treatment'', ''cure'', ''clinical'', ''trial'', ''study'', ''research'']"

text \<open>
  The chain of tests at the end of the function, in the order of the source (tech is
  tested before entertainment, although its keyword list is written after it).
\<close>

definition detect_category :: "string \<Rightarrow> category" where
  "detect_category question0 =
     (let question = lower question0
      in if any_keyword politics_keywords question then Politics
         else if any_keyword sports_keywords question then Sports
         else if any_keyword crypto_keywords question then Crypto
         else if any_keyword tech_keywords question then Tech
         else if any_keyword entertainment_keywords question then Entertainment
         else if any_keyword economy_keywords question then Economy
         else if any_keyword climate_keywords question then Climate
         else if any_keyword health_keywords question then Health
         else Other)"

text \<open>
  The tie-break policy in the words of the specification: the categories with their
  keyword sets in the fixed priority order, and "the first matching category wins; no
  match yields other".
\<close>

definition category_priority :: "(category \<times> string list) list" where
  "category_priority =
     [(Politics, politics_keywords), (Sports, sports_keywords), (Crypto, crypto_keywords),
      (Tech, tech_keywords), (Entertainment, entertainment_keywords),
      (Economy, economy_keywords), (Climate, climate_keywords), (Health, health_keywords)]"

definition first_matching_category :: "(category \<times> string list) list \<Rightarrow> string \<Rightarrow> category" where
  "first_matching_category table title =
     (case find (\<lambda>(c, keywords). any_keyword keywords title) table of
        None \<Rightarrow> Other
      | Some (c, keywords) \<Rightarrow> c)"

section \<open>Scorer/Filter: \<^verbatim>\<open>Polymarket.filter_markets_for_trading\<close>\<close>

text \<open>
  Source: \<^verbatim>\<open>backend/agents/data/polymarket/client.py\<close>, lines 315--394.

  A \<^verbatim>\<open>SimpleMarket\<close> as \<^verbatim>\<open>map_api_to_market\<close> fills it. Two fields are kept in the
  form the scoring pass reads them:
  \<^item> \<open>market_end\<close> is the outcome of lines 337--338,
    \<^verbatim>\<open>datetime.fromisoformat(market.end.replace('Z', '+00:00'))\<close> followed by the
    subtraction from the timezone-aware current time: \<open>Some t\<close> is an instant in
    microseconds since the epoch, \<open>None\<close> stands for every string on which these two
    lines raise (the bare \<^verbatim>\<open>except\<close> catches all of them);
  \<^item> \<open>rewardsMinSize\<close> is \<open>None\<close> when the object has no such attribute
    (\<^verbatim>\<open>hasattr\<close> is false).
  Instants are integers counting microseconds, the resolution of \<^verbatim>\<open>datetime\<close>.
\<close>

record market =
  mkt_id :: int
  question :: string
  market_end :: "int option"
  description :: string
  active :: bool
  funded :: bool
  rewardsMinSize :: "real option"
  rewardsMaxSpread :: real
  spread :: real
  outcomes :: string
  outcome_prices :: string
  clob_token_ids :: string

text \<open>
  \<^verbatim>\<open>(end_date - current_time).days\<close>: a \<^verbatim>\<open>timedelta\<close> is normalised so that its
  seconds and microseconds are non-negative, hence \<^verbatim>\<open>.days\<close> is the floor of the
  difference in days.
\<close>

definition microseconds_per_day :: int where
  "microseconds_per_day = 86400 * 1000000"

definition timedelta_days :: "int \<Rightarrow> int" where
  "timedelta_days delta = delta div microseconds_per_day"

text \<open>The body of the scoring loop for one active market (lines 328--372).\<close>

definition score_market :: "int \<Rightarrow> market \<Rightarrow> real" where
  "score_market current_time m =
     (let score = 0;
          score = (if spread m > 0
                   then (let spread_score = max 0 (30 - (spread m * 100))
                         in score + spread_score)
                   else score);
          score = (case market_end m of
                     None \<Rightarrow> score + 10
                   | Some end_date \<Rightarrow>
                       (let days_remaining = timedelta_days (end_date - current_time)
                        in if days_remaining > 0
                           then (if 1 \<le> days_remaining \<and> days_remaining \<le> 30 then score + 25
                                 else if 31 \<le> days_remaining \<and> days_remaining \<le> 90 then score + 20
                                 else if 91 \<le> days_remaining \<and> days_remaining \<le> 180 then score + 15
                                 else score + 5)
                           else score));
          score = (if funded m then score + 20 else score);
          question_length = length (question m);
          score = (if question_length > 100 then score + 15
                   else if question_length > 50 then score + 10
                   else score + 5);
          score = (case rewardsMinSize m of
                     None \<Rightarrow> score
                   | Some r \<Rightarrow>
                       (if r \<noteq> 0
                        then (if r \<ge> 100 then score + 10
                              else if r \<ge> 50 then score + 7
                              else score + 3)
                        else score))
      in score)"

text \<open>The first loop (lines 324--374): inactive markets are skipped, the others scored.\<close>

fun score_markets :: "int \<Rightarrow> market list \<Rightarrow> (market \<times> real) list" where
  "score_markets current_time [] = []"
| "score_markets current_time (m # markets) =
     (if \<not> active m then score_markets current_time markets
      else (m, score_market current_time m) # score_markets current_time markets)"

text \<open>
  Line 377, \<^verbatim>\<open>scored_markets.sort(key=lambda x: x[1], reverse=True)\<close>. Python's sort is
  stable, also with \<^verbatim>\<open>reverse=True\<close>: the result is the descending arrangement in
  which elements of equal key keep their order. That is the stable ascending sort on
  the negated key.
\<close>

definition sort_by_score :: "(market \<times> real) list \<Rightarrow> (market \<times> real) list" where
  "sort_by_score scored_markets = sort_key (\<lambda>x. - snd x) scored_markets"

text \<open>\<^verbatim>\<open>category_counts.get(category, 0)\<close>\<close>

definition get_count :: "(category \<rightharpoonup> nat) \<Rightarrow> category \<Rightarrow> nat" where
  "get_count category_counts c = (case category_counts c of None \<Rightarrow> 0 | Some n \<Rightarrow> n)"

definition max_per_category :: nat where
  "max_per_category = 8"

text \<open>
  The second loop (lines 383--392), with its two pieces of state: the dictionary
  \<open>category_counts\<close> and the list \<open>featured_markets\<close>. The \<^verbatim>\<open>break\<close> returns the
  list as it is.
\<close>

fun select_diverse ::
  "(market \<times> real) list \<Rightarrow> (category \<rightharpoonup> nat) \<Rightarrow> market list \<Rightarrow> market list" where
  "select_diverse [] category_counts featured_markets = featured_markets"
| "select_diverse ((m, score) # rest) category_counts featured_markets =
     (let category = detect_category (question m)
      in if get_count category_counts category < max_per_category
         then (let featured_markets' = featured_markets @ [m];
                   category_counts' =
                     category_counts(category \<mapsto> get_count category_counts category + 1)
               in if length featured_markets' \<ge> 50 then featured_markets'
                  else select_diverse rest category_counts' featured_markets')
         else select_diverse rest category_counts featured_markets)"

definition filter_markets_for_trading :: "int \<Rightarrow> market list \<Rightarrow> market list" where
  "filter_markets_for_trading current_time markets =
     select_diverse (sort_by_score (score_markets current_time markets)) Map.empty []"

text \<open>
  Three markets used as concrete inputs below, after the end-to-end scenario of the
  specification: A is active, funded, has spread 0.01, a question of 120 characters and
  ends ten days after time 0; B is inactive; C is active, unfunded, has spread 0.5 and
  ends 400 days after time 0.
\<close>

definition market_A :: market where
  "market_A = \<lparr> mkt_id = 1, question = replicate 120 (CHR ''q''),
       market_end = Some (10 * microseconds_per_day + 1), description = '''',
       active = True, funded = True, rewardsMinSize = Some 100, rewardsMaxSpread = 0,
       spread = 0.01, outcomes = ''[Yes, No]'', outcome_prices = ''[0.55, 0.45]'',
       clob_token_ids = ''[11, 12]'' \<rparr>"

definition market_B :: market where
  "market_B = \<lparr> mkt_id = 2, question = ''Will it happen?'',
       market_end = None, description = '''',
       active = False, funded = True, rewardsMinSize = Some 0, rewardsMaxSpread = 0,
       spread = 0.02, outcomes = ''[Yes, No]'', outcome_prices = ''[0.5, 0.5]'',
       clob_token_ids = ''[21, 22]'' \<rparr>"

definition market_C :: market where
  "market_C = \<lparr> mkt_id = 3, question = ''Will the senate vote?'',
       market_end = Some (400 * microseconds_per_day), description = '''',
       active = True, funded = False, rewardsMinSize = None, rewardsMaxSpread = 0,
       spread = 0.5, outcomes = ''[Yes, No]'', outcome_prices = ''[0.3, 0.7]'',
       clob_token_ids = ''[31, 32]'' \<rparr>"

section \<open>MarketCatalog: the cache of \<^verbatim>\<open>PolymarketService\<close> and the upstream calls\<close>

subsection \<open>The TTL cache\<close>

text \<open>
  Source: \<^verbatim>\<open>backend/services/polymarket_service.py\<close>. The cache keys are the strings
  \<^verbatim>\<open>f"all_markets_{limit}"\<close>, \<^verbatim>\<open>f"tradeable_markets_{limit}"\<close>,
  \<^verbatim>\<open>f"market_{market_id}"\<close>, \<^verbatim>\<open>f"all_events_{limit}"\<close>; they are kept apart by their
  prefixes and are the constructors of \<open>cache_key\<close>. A cache entry is the dictionary
  \<^verbatim>\<open>{"data": ..., "timestamp": datetime.now()}\<close>, its timestamp an instant in
  microseconds.
\<close>

datatype cache_key =
  AllMarketsKey int | TradeableMarketsKey int | MarketKey string | AllEventsKey int

record 'd cache_entry =
  data :: 'd
  timestamp :: int

type_synonym 'd cache = "cache_key \<rightharpoonup> 'd cache_entry"

definition cache_timeout :: int where
  "cache_timeout = 60"

text \<open>
  \<^verbatim>\<open>timedelta.seconds\<close>: the seconds field of the normalised \<^verbatim>\<open>timedelta\<close>, between 0
  and 86399; the whole days are in \<^verbatim>\<open>.days\<close> and are not part of it.
\<close>

definition timedelta_seconds :: "int \<Rightarrow> int" where
  "timedelta_seconds delta = (delta mod microseconds_per_day) div 1000000"

text \<open>
  \<^verbatim>\<open>_is_cache_valid\<close> (lines 282--286):
  \<^verbatim>\<open>(datetime.now() - self.cache[key]["timestamp"]).seconds < self.cache_timeout\<close>
\<close>

definition is_cache_valid :: "'d cache \<Rightarrow> int \<Rightarrow> cache_key \<Rightarrow> bool" where
  "is_cache_valid cache now key =
     (case cache key of
        None \<Rightarrow> False
      | Some entry \<Rightarrow> timedelta_seconds (now - timestamp entry) < cache_timeout)"

text \<open>\<^verbatim>\<open>_set_cache\<close> (lines 288--293)\<close>

definition set_cache :: "'d cache \<Rightarrow> int \<Rightarrow> cache_key \<Rightarrow> 'd \<Rightarrow> 'd cache" where
  "set_cache cache now key d = cache(key \<mapsto> \<lparr> data = d, timestamp = now \<rparr>)"

subsection \<open>The upstream feed\<close>

text \<open>
  What \<^verbatim>\<open>httpx.get\<close> does: it raises (a timeout, a connection failure), or it returns a
  response with a status code and a JSON array. An element of the array is \<open>Some m\<close>
  when \<^verbatim>\<open>map_api_to_market\<close> and the \<^verbatim>\<open>SimpleMarket\<close> constructor accept it, giving the
  market \<open>m\<close>, and \<open>None\<close> when they raise on it.
\<close>

datatype 'r http_result = Raised | Response int "'r list"

datatype py_exception =
  HttpxError | IndexError | ValueError string | CollaboratorError

text \<open>
  \<^verbatim>\<open>Polymarket.get_all_markets\<close> (client.py, lines 278--313). The call of \<^verbatim>\<open>httpx.get\<close>
  is not inside a \<^verbatim>\<open>try\<close>; the per-record \<^verbatim>\<open>try\<close> skips a record that raises; a
  market whose end date parses is kept only when it lies after the current time.
\<close>

fun collect_markets :: "int \<Rightarrow> market option list \<Rightarrow> market list" where
  "collect_markets current_time [] = []"
| "collect_markets current_time (None # rest) = collect_markets current_time rest"
| "collect_markets current_time (Some m # rest) =
     (case market_end m of
        Some end_date \<Rightarrow>
          (if end_date > current_time then m # collect_markets current_time rest
           else collect_markets current_time rest)
      | None \<Rightarrow> m # collect_markets current_time rest)"

definition Polymarket_get_all_markets ::
  "market option http_result \<Rightarrow> int \<Rightarrow> py_exception + market list" where
  "Polymarket_get_all_markets res current_time =
     (case res of
        Raised \<Rightarrow> Inl HttpxError
      | Response status_code body \<Rightarrow>
          (if status_code = 200 then Inr (collect_markets current_time body) else Inr []))"

text \<open>
  \<^verbatim>\<open>Polymarket.get_all_events\<close> (lines 425--478), the sibling listing operation. The whole
  body is inside \<^verbatim>\<open>try ... except Exception: return []\<close>. A raw record carries the
  volume as \<^verbatim>\<open>float(market.get("volume", 0))\<close> reads it: \<open>None\<close> when that raises.
\<close>

record raw_event =
  raw_id :: string
  raw_question :: string
  raw_description :: string
  raw_volume :: "real option"
  raw_featured :: bool

record simple_event =
  event_id :: string
  title :: string
  event_description :: string
  event_markets :: string
  event_volume :: real
  event_featured :: bool

fun build_events :: "raw_event list \<Rightarrow> py_exception + simple_event list" where
  "build_events [] = Inr []"
| "build_events (r # rest) =
     (case raw_volume r of
        None \<Rightarrow> Inl CollaboratorError
      | Some v \<Rightarrow>
          (case build_events rest of
             Inl e \<Rightarrow> Inl e
           | Inr events \<Rightarrow>
               (if v > 10000
                then Inr (\<lparr> event_id = raw_id r, title = raw_question r,
                            event_description = raw_description r, event_markets = raw_id r,
                            event_volume = v, event_featured = raw_featured r \<rparr> # events)
                else Inr events)))"

definition Polymarket_get_all_events :: "raw_event http_result \<Rightarrow> simple_event list" where
  "Polymarket_get_all_events res =
     (case res of
        Raised \<Rightarrow> []
      | Response status_code markets \<Rightarrow>
          (if status_code = 200
           then (if markets \<noteq> []
                 then (case build_events markets of Inl e \<Rightarrow> [] | Inr events \<Rightarrow> events)
                 else [])
           else []))"

text \<open>
  \<^verbatim>\<open>Polymarket.get_market\<close> (lines 396--402): \<^verbatim>\<open>data[0]\<close> raises IndexError on an empty
  array, and a status other than 200 falls off the end of the function, which returns
  \<^verbatim>\<open>None\<close>. \<^verbatim>\<open>map_api_to_market\<close> overwrites the token ids by a non-empty \<open>token_id\<close>.
\<close>

definition Polymarket_get_market ::
  "market option http_result \<Rightarrow> string \<Rightarrow> py_exception + market option" where
  "Polymarket_get_market res token_id =
     (case res of
        Raised \<Rightarrow> Inl HttpxError
      | Response status_code body \<Rightarrow>
          (if status_code = 200
           then (case body of
                   [] \<Rightarrow> Inl IndexError
                 | None # _ \<Rightarrow> Inl CollaboratorError
                 | Some m # _ \<Rightarrow>
                     Inr (Some (if token_id \<noteq> [] then m\<lparr> clob_token_ids := token_id \<rparr>
                                else m)))
           else Inr None))"

subsection \<open>The cached service methods\<close>

text \<open>
  The dictionary built for a market: its fields and the detected category.
  \<^verbatim>\<open>markets[:limit]\<close> is Python slicing, where a negative bound counts from the end.
\<close>

type_synonym market_dict = "market \<times> category"

datatype cached = MarketList "market_dict list" | OneMarket market_dict

definition to_market_dict :: "market \<Rightarrow> market_dict" where
  "to_market_dict m = (m, detect_category (question m))"

definition slice_to :: "'a list \<Rightarrow> int \<Rightarrow> 'a list" where
  "slice_to xs limit =
     (if limit \<ge> 0 then take (nat limit) xs else take (length xs - nat (- limit)) xs)"

text \<open>
  \<^verbatim>\<open>PolymarketService.get_all_markets\<close> (lines 20--56). \<open>now\<close> is the clock at the
  validity check and at the fetch, \<open>now_store\<close> the clock when the result is stored.
  Every exception is logged and raised again. The result is the returned value (or the
  exception) and the cache afterwards.
\<close>

definition PolymarketService_get_all_markets ::
  "cached cache \<Rightarrow> int \<Rightarrow> int \<Rightarrow> market option http_result \<Rightarrow> int
     \<Rightarrow> (py_exception + cached) \<times> cached cache" where
  "PolymarketService_get_all_markets cache now now_store res limit =
     (let cache_key = AllMarketsKey limit
      in if is_cache_valid cache now cache_key
         then (case cache cache_key of
                 Some entry \<Rightarrow> (Inr (data entry), cache)
               | None \<Rightarrow> (Inl CollaboratorError, cache))
         else (case Polymarket_get_all_markets res now of
                 Inl e \<Rightarrow> (Inl e, cache)
               | Inr markets \<Rightarrow>
                   (let markets_data = MarketList (map to_market_dict (slice_to markets limit))
                    in (Inr markets_data, set_cache cache now_store cache_key markets_data))))"

text \<open>
  \<^verbatim>\<open>PolymarketService.get_market_by_id\<close> (lines 98--131): a falsy result of
  \<^verbatim>\<open>get_market\<close> raises \<^verbatim>\<open>ValueError(f"Market {market_id} not found")\<close>; every other
  exception is raised again as it is.
\<close>

definition PolymarketService_get_market_by_id ::
  "cached cache \<Rightarrow> int \<Rightarrow> int \<Rightarrow> market option http_result \<Rightarrow> string
     \<Rightarrow> (py_exception + cached) \<times> cached cache" where
  "PolymarketService_get_market_by_id cache now now_store res market_id =
     (let cache_key = MarketKey market_id
      in if is_cache_valid cache now cache_key
         then (case cache cache_key of
                 Some entry \<Rightarrow> (Inr (data entry), cache)
               | None \<Rightarrow> (Inl CollaboratorError, cache))
         else (case Polymarket_get_market res market_id of
                 Inl e \<Rightarrow> (Inl e, cache)
               | Inr None \<Rightarrow> (Inl (ValueError (''Market '' @ market_id @ '' not found'')), cache)
               | Inr (Some market) \<Rightarrow>
                   (let market_dict = OneMarket (to_market_dict market)
                    in (Inr market_dict, set_cache cache now_store cache_key market_dict))))"

section \<open>OrderGateway: \<^verbatim>\<open>Polymarket.execute_market_order\<close>\<close>

text \<open>
  Source: \<^verbatim>\<open>backend/agents/data/polymarket/client.py\<close>, lines 589--700. The venue and
  the chain are outside the program; what their calls answer is given by a record of
  answers, and a call that raises answers \<open>None\<close> (or \<open>False\<close>). The calls made to
  the venue are recorded, in order, in a log that is passed along.
\<close>

type_synonym token = string

datatype venue_call =
  ExecuteMarketOrder int
| CreateOrder token real real
| PostOrder token real real

datatype order_result = OrderResponse string | Simulated

record venue_env =
  literal_eval :: "string \<Rightarrow> token list option"
  wallet_balance :: "token \<Rightarrow> nat"
  balance_call_ok :: "token \<Rightarrow> bool"
  get_price :: "token \<Rightarrow> real option"
  get_order_book_ok :: "token \<Rightarrow> bool"
  create_order_ok :: "token \<Rightarrow> real \<Rightarrow> real \<Rightarrow> bool"
  post_order :: "token \<Rightarrow> real \<Rightarrow> real \<Rightarrow> string option"

text \<open>
  \<^verbatim>\<open>get_token_balance\<close> (lines 589--616): the balance of the outcome token held by the
  wallet, read by \<^verbatim>\<open>balanceOf(self.wallet_address, int(token_id)).call()\<close>; when the
  conversion or the call raises, the \<^verbatim>\<open>except\<close> branch returns 0.0.
  \<open>wallet_balance\<close> is what the wallet holds, \<open>balance_call_ok\<close> whether the lookup
  goes through.
\<close>

definition get_token_balance :: "venue_env \<Rightarrow> token \<Rightarrow> real" where
  "get_token_balance env token_id =
     (if balance_call_ok env token_id then real (wallet_balance env token_id) else 0.0)"

text \<open>\<^verbatim>\<open>token_ids[i]\<close> for \<open>i\<close> 0 or 1: IndexError when the list is too short.\<close>

definition index_opt :: "'a list \<Rightarrow> nat \<Rightarrow> 'a option" where
  "index_opt xs i = (if i < length xs then Some (xs ! i) else None)"

text \<open>
  Lines 621--630, the token the order would buy: the first token when the market
  carries a trade whose side is \<^verbatim>\<open>"SELL"\<close>, the second otherwise. \<open>trade_side\<close> is
  \<^verbatim>\<open>market.trade.get('side')\<close>, \<open>None\<close> when the market has no \<^verbatim>\<open>trade\<close> attribute or
  the trade no side. The result is \<open>None\<close> when \<^verbatim>\<open>ast.literal_eval\<close> or the indexing
  raises.
\<close>

definition token_to_buy :: "venue_env \<Rightarrow> market \<Rightarrow> string option \<Rightarrow> token option" where
  "token_to_buy env m trade_side =
     (case literal_eval env (clob_token_ids m) of
        None \<Rightarrow> None
      | Some token_ids \<Rightarrow>
          (if trade_side = Some ''SELL'' then index_opt token_ids 0
           else index_opt token_ids 1))"

text \<open>
  \<^verbatim>\<open>execute_market_order\<close> (lines 618--700). Every exception inside is caught by the
  outer \<^verbatim>\<open>except\<close>, which returns \<^verbatim>\<open>None\<close>. The order is created with the fixed size of
  5 tokens at the current price, then posted; only after that is \<^verbatim>\<open>self.dry_run\<close>
  looked at. \<open>amount\<close> is not used by the body.
\<close>

definition execute_market_order ::
  "venue_env \<Rightarrow> bool \<Rightarrow> market \<Rightarrow> string option \<Rightarrow> real \<Rightarrow> venue_call list
     \<Rightarrow> order_result option \<times> venue_call list" where
  "execute_market_order env dry_run m trade_side amount log0 =
     (let log1 = log0 @ [ExecuteMarketOrder (mkt_id m)]
      in case token_to_buy env m trade_side of
           None \<Rightarrow> (None, log1)
         | Some token_id \<Rightarrow>
             (let current_balance = get_token_balance env token_id
              in if current_balance > 0 then (None, log1)
                 else (case get_price env token_id of
                         None \<Rightarrow> (None, log1)
                       | Some token_price \<Rightarrow>
                           (if \<not> get_order_book_ok env token_id then (None, log1)
                            else (let min_size = 5.0;
                                      log2 = log1 @ [CreateOrder token_id min_size token_price]
                                  in if \<not> create_order_ok env token_id min_size token_price
                                     then (None, log2)
                                     else (let log3 = log2 @ [PostOrder token_id min_size token_price]
                                           in case post_order env token_id min_size token_price of
                                                None \<Rightarrow> (None, log3)
                                              | Some resp \<Rightarrow>
                                                  (if dry_run then (Some Simulated, log3)
                                                   else (Some (OrderResponse resp), log3))))))))"

text \<open>The calls of a log that create (and sign) or post an order.\<close>

fun is_order_call :: "venue_call \<Rightarrow> bool" where
  "is_order_call (ExecuteMarketOrder _) = False"
| "is_order_call (CreateOrder _ _ _) = True"
| "is_order_call (PostOrder _ _ _) = True"

text \<open>
  A venue used as concrete input: the token ids of market A parse, the wallet holds 10
  units of every token, the price is 0.5 and every venue call goes through; the balance
  lookup goes through or not according to the argument.
\<close>

definition example_venue :: "bool \<Rightarrow> venue_env" where
  "example_venue lookup_ok =
     \<lparr> literal_eval = (\<lambda>s. if s = ''[11, 12]'' then Some [''11'', ''12''] else None),
       wallet_balance = (\<lambda>t. 10),
       balance_call_ok = (\<lambda>t. lookup_ok),
       get_price = (\<lambda>t. Some 0.5),
       get_order_book_ok = (\<lambda>t. True),
       create_order_ok = (\<lambda>t s p. True),
       post_order = (\<lambda>t s p. Some ''ok'') \<rparr>"

section \<open>DecisionOrchestrator: \<^verbatim>\<open>TradingService.run_autonomous_trading\<close>\<close>

text \<open>
  Source: \<^verbatim>\<open>backend/services/trading_service.py\<close>, lines 22--185. The trader, its
  agent and the Gamma client are collaborators whose code is outside the service; they
  are given by their answers, an answer \<open>Inl e\<close> being the exception \<open>e\<close> raised by the
  call.
\<close>

text \<open>
  What the first loop reads of a market returned by \<^verbatim>\<open>gamma.get_market\<close>:
  \<^verbatim>\<open>float(market_data.get('volume', 0))\<close>, \<open>None\<close> when the conversion raises, and
  \<^verbatim>\<open>market_data.get('featured', False)\<close>.
\<close>

record gamma_market =
  gm_volume :: "real option"
  gm_featured :: bool

text \<open>
  What the second loop reads of the dictionary returned by \<^verbatim>\<open>source_best_trade\<close>:
  \<open>bt_price\<close> is \<^verbatim>\<open>float(best_trade.get('price', 0))\<close>, \<open>None\<close> when the conversion
  raises; \<open>bt_edge\<close> is \<^verbatim>\<open>best_trade.get('edge', 0)\<close>, \<open>None\<close> when the value cannot be
  formatted by \<^verbatim>\<open>{edge:.4f}\<close> in the log line.
\<close>

record best_trade =
  bt_price :: "real option"
  bt_edge :: "real option"
  bt_position :: string
  bt_confidence :: real
  bt_prediction :: string
  bt_analysis :: string

type_synonym hq_event = "simple_event \<times> gamma_market"

type_synonym market_tuple = "market \<times> real"

record cycle_env =
  pre_trade_logic_ok :: bool
  events_response :: "raw_event http_result"
  gamma_get_market :: "string \<Rightarrow> py_exception + gamma_market"
  filter_events_with_rag :: "hq_event list \<Rightarrow> py_exception + hq_event list"
  map_filtered_events_to_markets :: "hq_event list \<Rightarrow> py_exception + market_tuple list"
  filter_markets :: "market_tuple list \<Rightarrow> py_exception + market_tuple list"
  source_best_trade :: "market_tuple \<Rightarrow> py_exception + best_trade option"
  trade_side_of :: "market \<Rightarrow> string option"
  venue :: venue_env
  client_dry_run :: bool

text \<open>The state the cycle touches: the trader's run-mode flag and the log of venue calls.\<close>

record trader_state =
  trader_dry_run :: bool
  venue_log :: "venue_call list"

text \<open>The dictionaries the cycle returns.\<close>

record trade_decision =
  market_question :: string
  action_position :: string
  target_price :: real
  decision_edge :: real
  decision_confidence :: real

datatype cycle_result =
  NoHighQualityEvents
| DryRunDecision trade_decision
| LiveTrade trade_decision "order_result option"
| NoEligibleTrades nat

text \<open>\<^verbatim>\<open>str.split(',')\<close>: the pieces between the commas; the empty string gives \<^verbatim>\<open>['']\<close>.\<close>

fun split_comma :: "string \<Rightarrow> string list" where
  "split_comma [] = ['''']"
| "split_comma (c # cs) =
     (if c = CHR '','' then [] # split_comma cs
      else (case split_comma cs of
              [] \<Rightarrow> [c # []]
            | w # ws \<Rightarrow> (c # w) # ws))"

text \<open>
  The inner loop over the market ids of one event (lines 48--64): an empty id is passed
  over, the first market with volume above 10000 or the featured flag ends the loop
  (\<^verbatim>\<open>break\<close>), an exception leaves it.
\<close>

fun first_high_quality ::
  "cycle_env \<Rightarrow> string list \<Rightarrow> py_exception + gamma_market option" where
  "first_high_quality env [] = Inr None"
| "first_high_quality env (market_id # market_ids) =
     (if market_id = [] then first_high_quality env market_ids
      else (case gamma_get_market env market_id of
              Inl e \<Rightarrow> Inl e
            | Inr market_data \<Rightarrow>
                (case gm_volume market_data of
                   None \<Rightarrow> Inl (ValueError ''could not convert string to float'')
                 | Some volume \<Rightarrow>
                     (if volume > 10000 \<or> gm_featured market_data
                      then Inr (Some market_data)
                      else first_high_quality env market_ids))))"

text \<open>
  The loop over the events (lines 43--68): \<^verbatim>\<open>except Exception: continue\<close> passes over
  an event whose processing raises.
\<close>

fun collect_high_quality :: "cycle_env \<Rightarrow> simple_event list \<Rightarrow> hq_event list" where
  "collect_high_quality env [] = []"
| "collect_high_quality env (event # events) =
     (case first_high_quality env (split_comma (event_markets event)) of
        Inl e \<Rightarrow> collect_high_quality env events
      | Inr None \<Rightarrow> collect_high_quality env events
      | Inr (Some market_data) \<Rightarrow> (event, market_data) # collect_high_quality env events)"

text \<open>
  The loop over the candidate markets (lines 107--171). The first candidate with a
  trade decision ends the cycle: in dry-run mode the decision is returned, otherwise
  \<^verbatim>\<open>execute_market_order\<close> is called with the amount 1.0 and its result returned.
  \<^verbatim>\<open>except Exception: continue\<close> passes over a candidate whose analysis raises. The
  result \<open>None\<close> is the end of the loop without a \<^verbatim>\<open>return\<close>.
\<close>

fun analyze_markets ::
  "cycle_env \<Rightarrow> bool \<Rightarrow> market_tuple list \<Rightarrow> venue_call list
     \<Rightarrow> cycle_result option \<times> venue_call list" where
  "analyze_markets env dry_run [] log0 = (None, log0)"
| "analyze_markets env dry_run (market_tuple # rest) log0 =
     (let market_data = fst market_tuple
      in if clob_token_ids market_data = [] then analyze_markets env dry_run rest log0
         else (case source_best_trade env market_tuple of
                 Inl e \<Rightarrow> analyze_markets env dry_run rest log0
               | Inr None \<Rightarrow> analyze_markets env dry_run rest log0
               | Inr (Some bt) \<Rightarrow>
                   (case bt_price bt of
                      None \<Rightarrow> analyze_markets env dry_run rest log0
                    | Some price \<Rightarrow>
                        (case bt_edge bt of
                           None \<Rightarrow> analyze_markets env dry_run rest log0
                         | Some edge \<Rightarrow>
                             (let decision =
                                    \<lparr> market_question = question market_data,
                                      action_position = bt_position bt,
                                      target_price = price,
                                      decision_edge = edge,
                                      decision_confidence = bt_confidence bt \<rparr>
                              in if dry_run then (Some (DryRunDecision decision), log0)
                                 else (let amount = 1.0;
                                           (trade_result, log1) =
                                             execute_market_order (venue env) (client_dry_run env)
                                               market_data (trade_side_of env market_data)
                                               amount log0
                                       in (Some (LiveTrade decision trade_result), log1)))))))"

text \<open>
  The stages between the two loops and the result of the cycle, on the log of venue
  calls (lines 29--178). An exception of a stage leaves the cycle (\<^verbatim>\<open>raise\<close> in the
  outer \<^verbatim>\<open>except\<close>).
\<close>

definition cycle_body ::
  "cycle_env \<Rightarrow> bool \<Rightarrow> venue_call list \<Rightarrow> (py_exception + cycle_result) \<times> venue_call list" where
  "cycle_body env dry_run log0 =
     (if \<not> pre_trade_logic_ok env then (Inl CollaboratorError, log0)
      else (let events = Polymarket_get_all_events (events_response env);
                high_quality_events = collect_high_quality env events
            in if high_quality_events = [] then (Inr NoHighQualityEvents, log0)
               else (case filter_events_with_rag env high_quality_events of
                       Inl e \<Rightarrow> (Inl e, log0)
                     | Inr filtered_events \<Rightarrow>
                         (case map_filtered_events_to_markets env filtered_events of
                            Inl e \<Rightarrow> (Inl e, log0)
                          | Inr markets \<Rightarrow>
                              (case filter_markets env markets of
                                 Inl e \<Rightarrow> (Inl e, log0)
                               | Inr filtered_markets \<Rightarrow>
                                   (case analyze_markets env dry_run filtered_markets log0 of
                                      (Some r, log1) \<Rightarrow> (Inr r, log1)
                                    | (None, log1) \<Rightarrow>
                                        (Inr (NoEligibleTrades (length filtered_markets)),
                                         log1)))))))"

text \<open>
  \<^verbatim>\<open>run_autonomous_trading\<close>: the trader's flag is set to \<open>dry_run\<close> for the cycle and
  restored in the \<^verbatim>\<open>finally\<close> clause, whatever the outcome.
\<close>

definition run_autonomous_trading ::
  "cycle_env \<Rightarrow> bool \<Rightarrow> trader_state \<Rightarrow> (py_exception + cycle_result) \<times> trader_state" where
  "run_autonomous_trading env dry_run s =
     (let original_dry_run = trader_dry_run s;
          s1 = s\<lparr> trader_dry_run := dry_run \<rparr>;
          (result, log1) = cycle_body env dry_run (venue_log s1)
      in (result, s1\<lparr> venue_log := log1, trader_dry_run := original_dry_run \<rparr>))"

text \<open>Cycles run one after the other, each with its own answers of the collaborators.\<close>

fun run_cycles :: "cycle_env list \<Rightarrow> bool \<Rightarrow> trader_state \<Rightarrow> trader_state" where
  "run_cycles [] dry_run s = s"
| "run_cycles (env # envs) dry_run s =
     run_cycles envs dry_run (snd (run_autonomous_trading env dry_run s))"

text \<open>
  When the processing of an event, and the analysis of a candidate, raises.
\<close>

definition event_raises :: "cycle_env \<Rightarrow> simple_event \<Rightarrow> bool" where
  "event_raises env event = isl (first_high_quality env (split_comma (event_markets event)))"

definition candidate_raises :: "cycle_env \<Rightarrow> market_tuple \<Rightarrow> bool" where
  "candidate_raises env market_tuple =
     (clob_token_ids (fst market_tuple) \<noteq> [] \<and>
      (case source_best_trade env market_tuple of
         Inl e \<Rightarrow> True
       | Inr None \<Rightarrow> False
       | Inr (Some bt) \<Rightarrow> bt_price bt = None \<or> bt_edge bt = None))"

text \<open>
  Collaborators used as concrete input. The feed lists three markets with volume above
  10000; the Gamma lookup of market 1 raises; the agent proposes the candidates C and A
  in this order; the analysis of C raises and that of A gives a trade at price 0.55 with
  edge 0.25.
\<close>

definition example_env :: cycle_env where
  "example_env =
     \<lparr> pre_trade_logic_ok = True,
       events_response = Response 200
         [\<lparr> raw_id = ''1'', raw_question = ''Q1'', raw_description = '''',
            raw_volume = Some 20000, raw_featured = False \<rparr>,
          \<lparr> raw_id = ''2'', raw_question = ''Q2'', raw_description = '''',
            raw_volume = Some 30000, raw_featured = False \<rparr>,
          \<lparr> raw_id = ''3'', raw_question = ''Q3'', raw_description = '''',
            raw_volume = Some 40000, raw_featured = True \<rparr>],
       gamma_get_market =
         (\<lambda>market_id. if market_id = ''1'' then Inl HttpxError
                      else Inr \<lparr> gm_volume = Some 20000, gm_featured = False \<rparr>),
       filter_events_with_rag = (\<lambda>evs. Inr evs),
       map_filtered_events_to_markets = (\<lambda>evs. Inr [(market_C, 1), (market_A, 1)]),
       filter_markets = (\<lambda>ms. Inr ms),
       source_best_trade =
         (\<lambda>mt. if mkt_id (fst mt) = 3 then Inl CollaboratorError
                else Inr (Some \<lparr> bt_price = Some 0.55, bt_edge = Some 0.25,
                                 bt_position = ''YES'', bt_confidence = 0.8,
                                 bt_prediction = '''', bt_analysis = '''' \<rparr>)),
       trade_side_of = (\<lambda>m. None),
       venue = example_venue False,
       client_dry_run = True \<rparr>"

definition example_state :: trader_state where
  "example_state = \<lparr> trader_dry_run = False, venue_log = [] \<rparr>"

section \<open>Properties of the EdgeEngine\<close>

subsection \<open>Rounding\<close>

text \<open>
  The rounding at its corners: a tie goes to the even mantissa
  (\<open>2 ^ 53 + 1\<close> to \<open>2 ^ 53\<close>, \<open>2 ^ 53 + 3\<close> to \<open>2 ^ 53 + 4\<close>), half of the smallest
  positive value goes to zero and one and a half of it to twice it, the largest finite
  value is kept, and what rounds to \<open>2 ^ 1024\<close> is the infinity.
\<close>

lemma round_to_double_corners:
  "round_to_double False (2 ^ 53 + 1) 1 0 = Finite (2 ^ 52) 1"
  "round_to_double False (2 ^ 53 + 3) 1 0 = Finite (2 ^ 52 + 2) 1"
  "round_to_double False 1 1 (- 1075) = Finite 0 0"
  "round_to_double False 3 1 (- 1075) = Finite 2 (- 1074)"
  "round_to_double False (2 ^ 53 - 1) 1 971 = Finite (2 ^ 53 - 1) 971"
  "round_to_double False (2 ^ 54 - 1) 1 970 = Infinity False"
  "round_to_double True 1 3 0 = Finite (- 6004799503160661) (- 54)"
  by code_simp+

text \<open>The literals of the edge metrics and of the examples.\<close>

lemma float_literals:
  "float_literal 1 10 = Finite 7205759403792794 (- 56)"
  "float_literal 5 100 = Finite 7205759403792794 (- 57)"
  "float_literal 100 1 = Finite 7036874417766400 (- 46)"
  "float_literal 2 1 = Finite 4503599627370496 (- 51)"
  "float_literal 7 10 = Finite 6305039478318694 (- 53)"
  "float_literal 5 10 = Finite 4503599627370496 (- 53)"
  "float_literal 52 100 = Finite 4683743612465316 (- 53)"
  "float_literal 2 10 = Finite 7205759403792794 (- 55)"
  by code_simp+

subsection \<open>The edge metrics\<close>

text \<open>The division is reached only with a positive divisor, on which it is defined.\<close>

lemma fdiv_defined: "fgt m (Finite 0 0) \<Longrightarrow> \<exists>q. fdiv x m = Some q"
  by (cases m; cases x) (auto simp: Let_def zero_less_mult_iff)

lemma edge_metrics_general:
  "\<exists>r. edge_metrics p m = Some r
       \<and> absolute_edge r = fabs (fsub p m)
       \<and> (fgt m (Finite 0 0) \<longrightarrow>
            (\<exists>q. fdiv (absolute_edge r) m = Some q
                 \<and> relative_edge r = fmul q (float_literal 100 1)))
       \<and> (\<not> fgt m (Finite 0 0) \<longrightarrow> relative_edge r = Finite 0 0)
       \<and> kelly_size r = fmul (absolute_edge r) (float_literal 2 1)
       \<and> (fgt (absolute_edge r) (float_literal 1 10) \<longrightarrow> confidence r = HIGH)
       \<and> (fgt (absolute_edge r) (float_literal 5 100)
            \<and> \<not> fgt (absolute_edge r) (float_literal 1 10) \<longrightarrow> confidence r = MEDIUM)
       \<and> (\<not> fgt (absolute_edge r) (float_literal 1 10)
            \<and> \<not> fgt (absolute_edge r) (float_literal 5 100) \<longrightarrow> confidence r = LOW)"
proof (cases "fgt m (Finite 0 0)")
  case True
  then obtain q where q: "fdiv (fabs (fsub p m)) m = Some q"
    using fdiv_defined by blast
  show ?thesis
    using True q by (simp add: edge_metrics_def Let_def)
next
  case False
  then show ?thesis
    by (simp add: edge_metrics_def Let_def)
qed

lemma edge_metrics_at_07_05:
  "edge_metrics (float_literal 7 10) (float_literal 5 10)
     = Some \<lparr> ai_probability = Finite 6305039478318694 (- 53),
               market_price = Finite 4503599627370496 (- 53),
               absolute_edge = Finite 7205759403792792 (- 55),
               relative_edge = Finite 5629499534213119 (- 47),
               kelly_size = Finite 7205759403792792 (- 54),
               recommendation = BUY, confidence = HIGH \<rparr>"
  by code_simp

lemma edge_metrics_at_052_05:
  "edge_metrics (float_literal 52 100) (float_literal 5 10)
     = Some \<lparr> ai_probability = Finite 4683743612465316 (- 53),
               market_price = Finite 4503599627370496 (- 53),
               absolute_edge = Finite 5764607523034240 (- 58),
               relative_edge = Finite 4503599627370500 (- 50),
               kelly_size = Finite 5764607523034240 (- 57),
               recommendation = BUY, confidence = LOW \<rparr>"
  by code_simp

lemma edge_metrics_at_06_065:
  "edge_metrics (float_literal 6 10) (float_literal 65 100)
     = Some \<lparr> ai_probability = Finite 5404319552844595 (- 53),
               market_price = Finite 5854679515581645 (- 53),
               absolute_edge = Finite 7205759403792800 (- 57),
               relative_edge = Finite 8660768514174038 (- 50),
               kelly_size = Finite 7205759403792800 (- 56),
               recommendation = SELL, confidence = MEDIUM \<rparr>"
  by code_simp

lemma edge_metrics_zero_price:
  "map_option relative_edge (edge_metrics p (Finite 0 0)) = Some (Finite 0 0)"
  by (simp add: edge_metrics_def Let_def)

lemma valof_examples:
  "valof (Finite 7205759403792792 (- 55))
     = Some 0.1999999999999999555910790149937383830547332763671875"
  "valof (Finite 5629499534213119 (- 47))
     = Some 39.99999999999999289457264239899814128875732421875"
  "valof (Finite 7205759403792792 (- 54))
     = Some 0.399999999999999911182158029987476766109466552734375"
  "valof (Finite 5764607523034240 (- 58))
     = Some 0.020000000000000017763568394002504646778106689453125"
  by (simp_all add: valof_def)

text \<open>
  C2, as the code has it. For every forecast probability \<open>p\<close> and market price \<open>m\<close>
  (binary64 values) the edge computation returns a result and raises no division by
  zero; in it \<open>absolute_edge\<close> is \<open>|p - m|\<close>, \<open>relative_edge\<close> is
  \<open>absolute_edge / m * 100\<close> when \<open>m > 0\<close> and 0 otherwise, \<open>kelly_size\<close> is
  \<open>absolute_edge * 2\<close>, each operation rounded to the nearest binary64 value; the
  confidence is HIGH when the returned \<open>absolute_edge\<close> is above 0.10, MEDIUM when it
  is above 0.05 and not above 0.10, and LOW otherwise. At \<open>(0.7, 0.5)\<close> the result is
  0.19999999999999996, 39.99999999999999, 0.3999999999999999 and HIGH (the values
  printed in full below); at \<open>(0.52, 0.5)\<close> the absolute edge is
  0.020000000000000018 with confidence LOW; a market price of 0 gives relative edge 0
  for every \<open>p\<close>.
\<close>

theorem edge_metrics_spec:
  "(\<exists>r. edge_metrics p m = Some r
       \<and> absolute_edge r = fabs (fsub p m)
       \<and> (fgt m (Finite 0 0) \<longrightarrow>
            (\<exists>q. fdiv (absolute_edge r) m = Some q
                 \<and> relative_edge r = fmul q (float_literal 100 1)))
       \<and> (\<not> fgt m (Finite 0 0) \<longrightarrow> relative_edge r = Finite 0 0)
       \<and> kelly_size r = fmul (absolute_edge r) (float_literal 2 1)
       \<and> (fgt (absolute_edge r) (float_literal 1 10) \<longrightarrow> confidence r = HIGH)
       \<and> (fgt (absolute_edge r) (float_literal 5 100)
            \<and> \<not> fgt (absolute_edge r) (float_literal 1 10) \<longrightarrow> confidence r = MEDIUM)
       \<and> (\<not> fgt (absolute_edge r) (float_literal 1 10)
            \<and> \<not> fgt (absolute_edge r) (float_literal 5 100) \<longrightarrow> confidence r = LOW))
   \<and> map_option absolute_edge (edge_metrics (float_literal 7 10) (float_literal 5 10))
       = Some (Finite 7205759403792792 (- 55))
   \<and> map_option relative_edge (edge_metrics (float_literal 7 10) (float_literal 5 10))
       = Some (Finite 5629499534213119 (- 47))
   \<and> map_option kelly_size (edge_metrics (float_literal 7 10) (float_literal 5 10))
       = Some (Finite 7205759403792792 (- 54))
   \<and> map_option confidence (edge_metrics (float_literal 7 10) (float_literal 5 10))
       = Some HIGH
   \<and> valof (Finite 7205759403792792 (- 55))
       = Some 0.1999999999999999555910790149937383830547332763671875
   \<and> valof (Finite 5629499534213119 (- 47))
       = Some 39.99999999999999289457264239899814128875732421875
   \<and> valof (Finite 7205759403792792 (- 54))
       = Some 0.399999999999999911182158029987476766109466552734375
   \<and> map_option absolute_edge (edge_metrics (float_literal 52 100) (float_literal 5 10))
       = Some (Finite 5764607523034240 (- 58))
   \<and> valof (Finite 5764607523034240 (- 58))
       = Some 0.020000000000000017763568394002504646778106689453125
   \<and> map_option confidence (edge_metrics (float_literal 52 100) (float_literal 5 10))
       = Some LOW
   \<and> map_option relative_edge (edge_metrics p (Finite 0 0)) = Some (Finite 0 0)"
proof (intro conjI)
  show "\<exists>r. edge_metrics p m = Some r
       \<and> absolute_edge r = fabs (fsub p m)
       \<and> (fgt m (Finite 0 0) \<longrightarrow>
            (\<exists>q. fdiv (absolute_edge r) m = Some q
                 \<and> relative_edge r = fmul q (float_literal 100 1)))
       \<and> (\<not> fgt m (Finite 0 0) \<longrightarrow> relative_edge r = Finite 0 0)
       \<and> kelly_size r = fmul (absolute_edge r) (float_literal 2 1)
       \<and> (fgt (absolute_edge r) (float_literal 1 10) \<longrightarrow> confidence r = HIGH)
       \<and> (fgt (absolute_edge r) (float_literal 5 100)
            \<and> \<not> fgt (absolute_edge r) (float_literal 1 10) \<longrightarrow> confidence r = MEDIUM)
       \<and> (\<not> fgt (absolute_edge r) (float_literal 1 10)
            \<and> \<not> fgt (absolute_edge r) (float_literal 5 100) \<longrightarrow> confidence r = LOW)"
    by (rule edge_metrics_general)
qed (simp_all only: edge_metrics_at_07_05 edge_metrics_at_052_05 edge_metrics_zero_price
      valof_examples option.map_sel option.simps edge_result.simps)

theorem edge_metrics_spec_witness:
  "fgt (float_literal 65 100) (Finite 0 0)
   \<and> fgt (fabs (fsub (float_literal 6 10) (float_literal 65 100))) (float_literal 5 100)
   \<and> \<not> fgt (fabs (fsub (float_literal 6 10) (float_literal 65 100))) (float_literal 1 10)
   \<and> map_option absolute_edge (edge_metrics (float_literal 6 10) (float_literal 65 100))
       = Some (fabs (fsub (float_literal 6 10) (float_literal 65 100)))
   \<and> map_option confidence (edge_metrics (float_literal 6 10) (float_literal 65 100))
       = Some MEDIUM"
proof -
  have h1: "fgt (float_literal 65 100) (Finite 0 0)"
    by code_simp
  have h2: "fgt (fabs (fsub (float_literal 6 10) (float_literal 65 100))) (float_literal 5 100)"
    by code_simp
  have h3: "\<not> fgt (fabs (fsub (float_literal 6 10) (float_literal 65 100))) (float_literal 1 10)"
    by code_simp
  from edge_metrics_spec [of "float_literal 6 10" "float_literal 65 100"]
  obtain r where r: "edge_metrics (float_literal 6 10) (float_literal 65 100) = Some r"
    "absolute_edge r = fabs (fsub (float_literal 6 10) (float_literal 65 100))"
    "fgt (absolute_edge r) (float_literal 5 100)
       \<and> \<not> fgt (absolute_edge r) (float_literal 1 10) \<longrightarrow> confidence r = MEDIUM"
    by blast
  from r h2 h3 have "confidence r = MEDIUM" by simp
  with r h1 h2 h3 show ?thesis by simp
qed

text \<open>
  The examples of C2 as the specification words them do not hold of the code: at
  \<open>(0.7, 0.5)\<close> the absolute edge is not the float 0.2 (nor the number 0.2), the
  relative edge is not 40.0 and the Kelly size is not the float 0.4; at \<open>(0.52, 0.5)\<close>
  the absolute edge is not the float 0.02.
\<close>

theorem edge_metrics_counterexample:
  "map_option absolute_edge (edge_metrics (float_literal 7 10) (float_literal 5 10))
       \<noteq> Some (float_literal 2 10)
   \<and> map_option absolute_edge (edge_metrics (float_literal 7 10) (float_literal 5 10))
       = Some (Finite 7205759403792792 (- 55))
   \<and> valof (Finite 7205759403792792 (- 55)) \<noteq> Some 0.2
   \<and> map_option relative_edge (edge_metrics (float_literal 7 10) (float_literal 5 10))
       \<noteq> Some (float_literal 40 1)
   \<and> map_option kelly_size (edge_metrics (float_literal 7 10) (float_literal 5 10))
       \<noteq> Some (float_literal 4 10)
   \<and> map_option absolute_edge (edge_metrics (float_literal 52 100) (float_literal 5 10))
       \<noteq> Some (float_literal 2 100)"
proof -
  have l: "float_literal 2 10 = Finite 7205759403792794 (- 55)"
    "float_literal 40 1 = Finite 5629499534213120 (- 47)"
    "float_literal 4 10 = Finite 7205759403792794 (- 54)"
    "float_literal 2 100 = Finite 5764607523034235 (- 58)"
    by code_simp+
  show ?thesis
    by (simp add: edge_metrics_at_07_05 edge_metrics_at_052_05 l valof_def)
qed

text \<open>
  C3, as the code has it. A forecast value \<open>v > 1.0\<close> is divided by 100 and the
  result is clamped to \<open>[0.01, 0.99]\<close>; a value \<open>v \<le> 1.0\<close> is clamped as it is. So
  65 becomes 0.65, and 1.5 becomes 0.015 (it is divided by 100 first, and 0.015 lies
  inside the clamping interval).
\<close>

theorem normalize_probability_spec:
  "(v > 1.0 \<longrightarrow> normalize_probability v = max 0.01 (min 0.99 (v / 100)))
   \<and> (v \<le> 1.0 \<longrightarrow> normalize_probability v = max 0.01 (min 0.99 v))
   \<and> 0.01 \<le> normalize_probability v \<and> normalize_probability v \<le> 0.99
   \<and> normalize_probability 65 = 0.65
   \<and> normalize_probability 1.5 = 0.015"
  by (simp add: normalize_probability_def Let_def)

theorem normalize_probability_spec_witness:
  "(250::real) > 1.0 \<and> normalize_probability 250 = 0.99
   \<and> normalize_probability 250 = max 0.01 (min 0.99 (250 / 100))"
  using normalize_probability_spec [of 250] by simp

text \<open>
  The example of C3 as the specification words it, "an input of 1.5 is clamped to
  0.99", does not hold of the code.
\<close>

theorem normalize_probability_counterexample:
  "normalize_probability 1.5 \<noteq> 0.99"
  by (simp add: normalize_probability_def Let_def)

section \<open>Properties of the Categorizer\<close>

lemma any_keyword_iff: "any_keyword kws q \<longleftrightarrow> (\<exists>k\<in>set kws. sublist k q)"
  by (simp add: any_keyword_def contains_def list_ex_iff)

text \<open>
  C4. \<open>detect_category\<close> is a function of the title alone; it depends on the title
  only through its lower-cased form (case-insensitive substring matching); it returns
  the first category, in the order politics, sports, crypto, tech, entertainment,
  economy, climate, health, one of whose keywords occurs in the lower-cased title; a
  title with a politics keyword and a keyword of any other category is politics; a
  title with no keyword at all is other.
\<close>

theorem detect_category_spec:
  "detect_category q = first_matching_category category_priority (lower q)
   \<and> (lower q = lower q' \<longrightarrow> detect_category q = detect_category q')
   \<and> ((\<exists>k\<in>set politics_keywords. sublist k (lower q))
        \<and> (\<exists>k\<in>set (sports_keywords @ crypto_keywords @ tech_keywords @ entertainment_keywords
                      @ economy_keywords @ climate_keywords @ health_keywords). sublist k (lower q))
        \<longrightarrow> detect_category q = Politics)
   \<and> ((\<forall>k\<in>set (politics_keywords @ sports_keywords @ crypto_keywords @ tech_keywords
                   @ entertainment_keywords @ economy_keywords @ climate_keywords
                   @ health_keywords). \<not> sublist k (lower q))
        \<longrightarrow> detect_category q = Other)"
proof (intro conjI impI)
  show "detect_category q = first_matching_category category_priority (lower q)"
    by (simp add: detect_category_def first_matching_category_def category_priority_def Let_def)
next
  assume "lower q = lower q'"
  then show "detect_category q = detect_category q'"
    by (simp add: detect_category_def Let_def)
next
  assume "(\<exists>k\<in>set politics_keywords. sublist k (lower q))
        \<and> (\<exists>k\<in>set (sports_keywords @ crypto_keywords @ tech_keywords @ entertainment_keywords
                      @ economy_keywords @ climate_keywords @ health_keywords). sublist k (lower q))"
  then show "detect_category q = Politics"
    by (simp add: detect_category_def Let_def any_keyword_iff)
next
  assume "\<forall>k\<in>set (politics_keywords @ sports_keywords @ crypto_keywords @ tech_keywords
                   @ entertainment_keywords @ economy_keywords @ climate_keywords
                   @ health_keywords). \<not> sublist k (lower q)"
  then show "detect_category q = Other"
    by (simp add: detect_category_def Let_def any_keyword_iff ball_Un)
qed

theorem detect_category_spec_witness:
  "lower ''Election or Bitcoin?'' = lower ''ELECTION OR BITCOIN?''
   \<and> detect_category ''Election or Bitcoin?'' = detect_category ''ELECTION OR BITCOIN?''
   \<and> (\<exists>k\<in>set politics_keywords. sublist k (lower ''Election or Bitcoin?''))
   \<and> (\<exists>k\<in>set (sports_keywords @ crypto_keywords @ tech_keywords @ entertainment_keywords
                 @ economy_keywords @ climate_keywords @ health_keywords).
          sublist k (lower ''Election or Bitcoin?''))
   \<and> detect_category ''Election or Bitcoin?'' = Politics
   \<and> \<not> any_keyword (politics_keywords @ sports_keywords @ crypto_keywords @ tech_keywords
                 @ entertainment_keywords @ economy_keywords @ climate_keywords
                 @ health_keywords) (lower ''Who is it?'')
   \<and> detect_category ''Who is it?'' = Other"
proof -
  have h1: "lower ''Election or Bitcoin?'' = lower ''ELECTION OR BITCOIN?''"
    by code_simp
  have h2: "\<exists>k\<in>set politics_keywords. sublist k (lower ''Election or Bitcoin?'')"
    by code_simp
  have h3: "\<exists>k\<in>set (sports_keywords @ crypto_keywords @ tech_keywords @ entertainment_keywords
                 @ economy_keywords @ climate_keywords @ health_keywords).
          sublist k (lower ''Election or Bitcoin?'')"
    by code_simp
  have h4: "\<forall>k\<in>set (politics_keywords @ sports_keywords @ crypto_keywords @ tech_keywords
                 @ entertainment_keywords @ economy_keywords @ climate_keywords
                 @ health_keywords). \<not> sublist k (lower ''Who is it?'')"
    by code_simp
  have h5: "\<not> any_keyword (politics_keywords @ sports_keywords @ crypto_keywords @ tech_keywords
                 @ entertainment_keywords @ economy_keywords @ climate_keywords
                 @ health_keywords) (lower ''Who is it?'')"
    by code_simp
  show ?thesis
    using h1 h2 h3 h4 h5
      detect_category_spec [of "''Election or Bitcoin?''" "''ELECTION OR BITCOIN?''"]
      detect_category_spec [of "''Who is it?''" "''Who is it?''"]
    by blast
qed

section \<open>Properties of the Scorer/Filter\<close>

subsection \<open>The selection loop\<close>

text \<open>
  Invariant of the second loop: the dictionary holds, for every category, the number of
  markets of that category accepted so far, no count exceeds the cap, and fewer than 50
  markets have been accepted while the loop is still running.
\<close>

lemma select_diverse_inv:
  "length featured < 50 \<Longrightarrow>
   (\<forall>c. get_count counts c = length (filter (\<lambda>m. detect_category (question m) = c) featured)) \<Longrightarrow>
   (\<forall>c. get_count counts c \<le> 8) \<Longrightarrow>
   length (select_diverse scored counts featured) \<le> 50
   \<and> (\<forall>c. length (filter (\<lambda>m. detect_category (question m) = c)
                 (select_diverse scored counts featured)) \<le> 8)"
proof (induction scored counts featured rule: select_diverse.induct)
  case (1 counts featured)
  then show ?case by (simp; metis)
next
  case (2 m score rest counts featured)
  let ?cat = "detect_category (question m)"
  show ?case
  proof (cases "get_count counts ?cat < max_per_category")
    case False
    then show ?thesis using "2.IH"(2)[OF refl _ "2.prems"] by simp
  next
    case lt: True
    let ?f' = "featured @ [m]"
    let ?c' = "counts(?cat \<mapsto> get_count counts ?cat + 1)"
    have cnt: "\<forall>c. get_count ?c' c = length (filter (\<lambda>m. detect_category (question m) = c) ?f')"
      using "2.prems"(2) by (auto simp: get_count_def)
    have le: "\<forall>c. get_count ?c' c \<le> 8"
      using "2.prems"(3) lt by (auto simp: get_count_def max_per_category_def)
    show ?thesis
    proof (cases "length ?f' \<ge> 50")
      case True
      then have "select_diverse ((m, score) # rest) counts featured = ?f'"
        using lt by (simp add: Let_def)
      moreover have "length ?f' \<le> 50" using "2.prems"(1) by simp
      ultimately show ?thesis using cnt le by (simp; metis)
    next
      case False
      then have eq: "select_diverse ((m, score) # rest) counts featured = select_diverse rest ?c' ?f'"
        using lt by (simp add: Let_def)
      have "length ?f' < 50" using False by simp
      from "2.IH"(1)[OF refl lt refl refl _ this cnt le] False show ?thesis
        unfolding eq .
    qed
  qed
qed

lemma score_markets_inactive: "\<forall>m\<in>set ms. \<not> active m \<Longrightarrow> score_markets now ms = []"
  by (induction ms) auto


text \<open>
  C1. For every input list of markets (and every current time) the list returned by
  \<open>filter_markets_for_trading\<close> has at most 50 elements and at most 8 markets of
  each detected category, and it is empty when every input market is inactive.
\<close>

theorem filter_markets_for_trading_bounded:
  "length (filter_markets_for_trading now ms) \<le> 50
   \<and> (\<forall>c. length (filter (\<lambda>m. detect_category (question m) = c)
                 (filter_markets_for_trading now ms)) \<le> 8)
   \<and> ((\<forall>m\<in>set ms. \<not> active m) \<longrightarrow> filter_markets_for_trading now ms = [])"
proof -
  have "length (filter_markets_for_trading now ms) \<le> 50
   \<and> (\<forall>c. length (filter (\<lambda>m. detect_category (question m) = c)
                 (filter_markets_for_trading now ms)) \<le> 8)"
    unfolding filter_markets_for_trading_def
    by (rule select_diverse_inv) (simp_all add: get_count_def)
  moreover have "(\<forall>m\<in>set ms. \<not> active m) \<longrightarrow> filter_markets_for_trading now ms = []"
    by (simp add: filter_markets_for_trading_def score_markets_inactive sort_by_score_def)
  ultimately show ?thesis by blast
qed

theorem filter_markets_for_trading_bounded_witness:
  "\<not> active market_B
   \<and> filter_markets_for_trading 0 [market_B, market_B] = []
   \<and> length (filter_markets_for_trading 0 [market_B, market_B]) \<le> 50"
proof -
  have h: "\<forall>m\<in>set [market_B, market_B]. \<not> active m"
    by (simp add: market_B_def)
  show ?thesis
    using h filter_markets_for_trading_bounded [of 0 "[market_B, market_B]"] by simp
qed

subsection \<open>The scoring pass\<close>

lemma score_markets_eq:
  "score_markets now ms = map (\<lambda>m. (m, score_market now m)) (filter active ms)"
  by (induction ms) auto

lemma score_market_factors:
  "\<exists>sf tf fb qb rb. score_market now m = sf + tf + fb + qb + rb
      \<and> (spread m > 0 \<longrightarrow> sf = max 0 (30 - spread m * 100))
      \<and> (spread m \<le> 0 \<longrightarrow> sf = 0)
      \<and> (market_end m = None \<longrightarrow> tf = 10)
      \<and> (\<forall>e d. market_end m = Some e \<and> d = timedelta_days (e - now) \<longrightarrow>
             (1 \<le> d \<and> d \<le> 30 \<longrightarrow> tf = 25) \<and> (31 \<le> d \<and> d \<le> 90 \<longrightarrow> tf = 20)
           \<and> (91 \<le> d \<and> d \<le> 180 \<longrightarrow> tf = 15) \<and> (180 < d \<longrightarrow> tf = 5)
           \<and> (e \<le> now \<longrightarrow> tf = 0))
      \<and> fb = (if funded m then 20 else 0)
      \<and> qb = (if length (question m) > 100 then 15 else if length (question m) > 50 then 10 else 5)
      \<and> (\<forall>r. rewardsMinSize m = Some r \<and> r \<noteq> 0 \<longrightarrow>
             rb = (if r \<ge> 100 then 10 else if r \<ge> 50 then 7 else 3))
      \<and> (rewardsMinSize m = None \<or> rewardsMinSize m = Some 0 \<longrightarrow> rb = 0)"
proof -
  define sf :: real where "sf = (if spread m > 0 then max 0 (30 - spread m * 100) else 0)"
  define tf :: real where "tf = (case market_end m of None \<Rightarrow> 10 | Some e \<Rightarrow>
       (let d = timedelta_days (e - now) in
        if d > 0 then (if d \<le> 30 then 25 else if d \<le> 90 then 20 else if d \<le> 180 then 15 else 5) else 0))"
  define fb :: real where "fb = (if funded m then 20 else 0)"
  define qb :: real where "qb = (if length (question m) > 100 then 15 else if length (question m) > 50 then 10 else 5)"
  define rb :: real where "rb = (case rewardsMinSize m of None \<Rightarrow> 0 | Some r \<Rightarrow>
       if r = 0 then 0 else if r \<ge> 100 then 10 else if r \<ge> 50 then 7 else 3)"
  have past: "timedelta_days (e - now) \<le> 0" if "e \<le> now" for e
  proof -
    have "(e - now) div microseconds_per_day \<le> 0 div microseconds_per_day"
      using that by (intro zdiv_mono1) (simp_all add: microseconds_per_day_def)
    then show ?thesis by (simp add: timedelta_days_def)
  qed
  have sum: "score_market now m = sf + tf + fb + qb + rb"
    unfolding score_market_def sf_def tf_def fb_def qb_def rb_def
    by (simp add: Let_def split: option.splits)
  have s1: "spread m > 0 \<longrightarrow> sf = max 0 (30 - spread m * 100)"
    and s2: "spread m \<le> 0 \<longrightarrow> sf = 0"
    by (simp_all add: sf_def)
  have t1: "market_end m = None \<longrightarrow> tf = 10" by (simp add: tf_def)
  have t2: "\<forall>e d. market_end m = Some e \<and> d = timedelta_days (e - now) \<longrightarrow>
             (1 \<le> d \<and> d \<le> 30 \<longrightarrow> tf = 25) \<and> (31 \<le> d \<and> d \<le> 90 \<longrightarrow> tf = 20)
           \<and> (91 \<le> d \<and> d \<le> 180 \<longrightarrow> tf = 15) \<and> (180 < d \<longrightarrow> tf = 5)
           \<and> (e \<le> now \<longrightarrow> tf = 0)"
    by (auto simp: tf_def Let_def dest!: past)
  have r1: "\<forall>r. rewardsMinSize m = Some r \<and> r \<noteq> 0 \<longrightarrow>
             rb = (if r \<ge> 100 then 10 else if r \<ge> 50 then 7 else 3)"
    and r2: "rewardsMinSize m = None \<or> rewardsMinSize m = Some 0 \<longrightarrow> rb = 0"
    by (auto simp: rb_def)
  show ?thesis
    apply (rule exI[of _ sf], rule exI[of _ tf], rule exI[of _ fb], rule exI[of _ qb],
           rule exI[of _ rb])
    apply (intro conjI)
            apply (rule sum, rule s1, rule s2, rule t1, rule t2, rule fb_def, rule qb_def,
                   rule r1, rule r2)
    done
qed

lemma sort_by_score_sorted:
  "sorted_wrt (\<lambda>a b. snd a \<ge> snd b) (sort_by_score xs)"
proof -
  have "sorted (map (\<lambda>x. - snd x) (sort_by_score xs))"
    by (simp add: sort_by_score_def)
  then show ?thesis
    by (simp add: sorted_map sorted_wrt_iff_nth_less)
qed

lemma sort_by_score_stable:
  "filter (\<lambda>x. snd x = k) (sort_by_score xs) = filter (\<lambda>x. snd x = k) xs"
proof -
  have "filter (\<lambda>y. - snd y = - k) (sort_key (\<lambda>x. - snd x) xs) = filter (\<lambda>y. - snd y = - k) xs"
    by (rule sort_key_stable)
  then show ?thesis by (simp add: sort_by_score_def)
qed

lemma sort_by_score_mset: "mset (sort_by_score xs) = mset xs"
  by (simp add: sort_by_score_def)

text \<open>
  C5. The scoring pass gives every active market, and no other, the pair of the market
  and its score. The score is the sum of five factors: the spread factor
  \<open>max 0 (30 - spread * 100)\<close> for a positive spread and 0 otherwise; the time factor
  25, 20, 15, 5 for 1--30, 31--90, 91--180, more than 180 days remaining, 10 when the end
  date does not parse, 0 when the market has ended; 20 when funded; 15, 10 or 5 by the
  length of the question; and, when \<open>rewardsMinSize\<close> is present and nonzero, 10, 7
  or 3. The scored list is then sorted descending by score, a permutation of the scored
  list in which entries of equal score keep their input order.
\<close>

theorem scoring_pass_spec:
  "score_markets now ms = map (\<lambda>m. (m, score_market now m)) (filter active ms)
   \<and> (\<exists>sf tf fb qb rb. score_market now m = sf + tf + fb + qb + rb
      \<and> (spread m > 0 \<longrightarrow> sf = max 0 (30 - spread m * 100))
      \<and> (spread m \<le> 0 \<longrightarrow> sf = 0)
      \<and> (market_end m = None \<longrightarrow> tf = 10)
      \<and> (\<forall>e d. market_end m = Some e \<and> d = timedelta_days (e - now) \<longrightarrow>
             (1 \<le> d \<and> d \<le> 30 \<longrightarrow> tf = 25) \<and> (31 \<le> d \<and> d \<le> 90 \<longrightarrow> tf = 20)
           \<and> (91 \<le> d \<and> d \<le> 180 \<longrightarrow> tf = 15) \<and> (180 < d \<longrightarrow> tf = 5)
           \<and> (e \<le> now \<longrightarrow> tf = 0))
      \<and> fb = (if funded m then 20 else 0)
      \<and> qb = (if length (question m) > 100 then 15
                else if length (question m) > 50 then 10 else 5)
      \<and> (\<forall>r. rewardsMinSize m = Some r \<and> r \<noteq> 0 \<longrightarrow>
             rb = (if r \<ge> 100 then 10 else if r \<ge> 50 then 7 else 3))
      \<and> (rewardsMinSize m = None \<or> rewardsMinSize m = Some 0 \<longrightarrow> rb = 0))
   \<and> sorted_wrt (\<lambda>a b. snd a \<ge> snd b) (sort_by_score (score_markets now ms))
   \<and> mset (sort_by_score (score_markets now ms)) = mset (score_markets now ms)
   \<and> (\<forall>k. filter (\<lambda>x. snd x = k) (sort_by_score (score_markets now ms))
            = filter (\<lambda>x. snd x = k) (score_markets now ms))"
  using score_markets_eq [of now ms] score_market_factors [of now m]
    sort_by_score_sorted [of "score_markets now ms"]
    sort_by_score_mset [of "score_markets now ms"]
    sort_by_score_stable [of _ "score_markets now ms"]
  by (intro conjI allI) assumption+

theorem scoring_pass_spec_witness:
  "spread market_A > 0
   \<and> market_end market_A = Some (10 * microseconds_per_day + 1)
   \<and> timedelta_days (10 * microseconds_per_day + 1 - 0) = 10
   \<and> rewardsMinSize market_A = Some 100
   \<and> score_market 0 market_A = 29 + 25 + 20 + 15 + 10
   \<and> score_markets 0 [market_C, market_B, market_A]
       = [(market_C, score_market 0 market_C), (market_A, score_market 0 market_A)]"
proof -
  have h1: "spread market_A > 0" "funded market_A" "length (question market_A) = 120"
    "market_end market_A = Some (10 * microseconds_per_day + 1)"
    "rewardsMinSize market_A = Some 100"
    "spread market_A = 0.01"
    by (simp_all add: market_A_def)
  have h2: "timedelta_days (10 * microseconds_per_day + 1 - 0) = 10"
    by (simp add: timedelta_days_def microseconds_per_day_def)
  have h3: "filter active [market_C, market_B, market_A] = [market_C, market_A]"
    by (simp add: market_A_def market_B_def market_C_def)
  from scoring_pass_spec [of 0 "[market_C, market_B, market_A]" market_A]
  have eq: "score_markets 0 [market_C, market_B, market_A]
       = [(market_C, score_market 0 market_C), (market_A, score_market 0 market_A)]"
    and ex: "\<exists>sf tf fb qb rb. score_market 0 market_A = sf + tf + fb + qb + rb
      \<and> sf = 29 \<and> tf = 25 \<and> fb = 20 \<and> qb = 15 \<and> rb = 10"
    using h1 h2 h3 by auto
  from ex have "score_market 0 market_A = 29 + 25 + 20 + 15 + 10" by auto
  with eq h1 h2 show ?thesis by simp
qed

section \<open>Properties of the MarketCatalog\<close>

subsection \<open>The TTL cache\<close>

text \<open>
  While an entry is less than one day old, \<open>is_cache_valid\<close> is the comparison of the
  elapsed time with the 60-second TTL.
\<close>

lemma is_cache_valid_within_day:
  assumes "cache key = Some entry"
    and "0 \<le> now - timestamp entry"
    and "now - timestamp entry < microseconds_per_day"
  shows "is_cache_valid cache now key \<longleftrightarrow> now - timestamp entry < cache_timeout * 1000000"
proof -
  have "(now - timestamp entry) mod microseconds_per_day = now - timestamp entry"
    using assms(2,3) by simp
  moreover have "(now - timestamp entry) div 1000000 < 60 \<longleftrightarrow> now - timestamp entry < 60000000"
    by linarith
  ultimately show ?thesis
    using assms(1) by (simp add: is_cache_valid_def timedelta_seconds_def cache_timeout_def)
qed

lemma is_cache_valid_missing: "cache key = None \<Longrightarrow> \<not> is_cache_valid cache now key"
  by (simp add: is_cache_valid_def)

text \<open>On a miss the result is fetched and stored under the key with the time of storing.\<close>

lemma get_all_markets_miss:
  assumes "\<not> is_cache_valid cache now (AllMarketsKey limit)"
    and "Polymarket_get_all_markets res now = Inr markets"
  shows "\<exists>d. PolymarketService_get_all_markets cache now now_store res limit
            = (Inr d, cache(AllMarketsKey limit \<mapsto> \<lparr> data = d, timestamp = now_store \<rparr>))
          \<and> d = MarketList (map to_market_dict (slice_to markets limit))"
  using assms by (simp add: PolymarketService_get_all_markets_def Let_def set_cache_def)

text \<open>
  C9 at an entry that is one day and five seconds old. The entry was stored at time 0
  under the key of \<open>get_all_markets(limit=10)\<close> with an empty list; the clock now reads
  86405 seconds. The elapsed time is not below the 60-second TTL, yet
  \<open>is_cache_valid\<close> holds (\<^verbatim>\<open>.seconds\<close> of the difference is 5), and
  \<open>get_all_markets\<close> returns the stored empty list and leaves the cache as it is,
  although the upstream would deliver market A.
\<close>

theorem stale_cache_entry_served:
  "\<not> (86405 * 1000000 - (0::int) < cache_timeout * 1000000)
   \<and> is_cache_valid (set_cache Map.empty 0 (AllMarketsKey 10) (MarketList []))
         (86405 * 1000000) (AllMarketsKey 10)
   \<and> PolymarketService_get_all_markets
         (set_cache Map.empty 0 (AllMarketsKey 10) (MarketList []))
         (86405 * 1000000) (86405 * 1000000) (Response 200 [Some market_A]) 10
       = (Inr (MarketList []), set_cache Map.empty 0 (AllMarketsKey 10) (MarketList []))"
  by (simp add: PolymarketService_get_all_markets_def is_cache_valid_def set_cache_def
      timedelta_seconds_def cache_timeout_def microseconds_per_day_def Let_def)

subsection \<open>Failures of the upstream feed\<close>

text \<open>A status other than 200 gives the empty list in both listing operations.\<close>

lemma listing_non_success_status:
  "status_code \<noteq> 200 \<Longrightarrow>
     Polymarket_get_all_markets (Response status_code body) now = Inr []
     \<and> Polymarket_get_all_events (Response status_code body') = []"
  by (simp add: Polymarket_get_all_markets_def Polymarket_get_all_events_def)

text \<open>
  The single-market lookup of the service raises in every case in which the upstream
  gives no market: the \<^verbatim>\<open>ValueError\<close> "not found" for a status other than 200, the
  exception of \<^verbatim>\<open>httpx\<close> when the call raises, \<^verbatim>\<open>IndexError\<close> for an empty array.
\<close>

lemma get_market_by_id_absent:
  assumes "\<not> is_cache_valid cache now (MarketKey market_id)"
  shows "status_code \<noteq> 200 \<Longrightarrow>
           PolymarketService_get_market_by_id cache now now_store (Response status_code body) market_id
           = (Inl (ValueError (''Market '' @ market_id @ '' not found'')), cache)"
    and "PolymarketService_get_market_by_id cache now now_store (Response 200 []) market_id
           = (Inl IndexError, cache)"
    and "PolymarketService_get_market_by_id cache now now_store Raised market_id
           = (Inl HttpxError, cache)"
  using assms
  by (simp_all add: PolymarketService_get_market_by_id_def Polymarket_get_market_def Let_def)

text \<open>
  C7 at a timeout of the upstream call. \<open>Polymarket.get_all_markets\<close> does not return
  the empty list: the exception of \<^verbatim>\<open>httpx.get\<close> leaves the function, and the service
  method raises it again, whereas \<open>get_all_events\<close> returns the empty list on the same
  failure. The client's \<open>get_market\<close> returns \<^verbatim>\<open>None\<close> on a status other than 200, and
  an empty match surfaces as \<^verbatim>\<open>IndexError\<close>.
\<close>

theorem get_all_markets_timeout_propagates:
  "Polymarket_get_all_markets Raised 0 = Inl HttpxError
   \<and> PolymarketService_get_all_markets Map.empty 0 0 Raised 1000 = (Inl HttpxError, Map.empty)
   \<and> Polymarket_get_all_events Raised = []
   \<and> Polymarket_get_market (Response 404 []) ''7'' = Inr None
   \<and> Polymarket_get_market (Response 200 []) ''7'' = Inl IndexError"
  by (simp add: Polymarket_get_all_markets_def PolymarketService_get_all_markets_def
      Polymarket_get_all_events_def Polymarket_get_market_def is_cache_valid_def Let_def)

section \<open>Properties of the OrderGateway\<close>

lemma get_token_balance_pos:
  "get_token_balance env tok > 0 \<longleftrightarrow> balance_call_ok env tok \<and> wallet_balance env tok > 0"
  by (simp add: get_token_balance_def)

text \<open>
  C10, as the code has it. \<open>get_token_balance\<close> reports a strictly positive balance
  exactly when the lookup goes through and the wallet holds a strictly positive
  balance of the token. For every market, trade side, amount and run mode: when the
  order would buy the token \<open>tok\<close> and \<open>get_token_balance\<close> reports a strictly positive
  balance of it, \<open>execute_market_order\<close> returns \<^verbatim>\<open>None\<close> and makes no call that creates,
  signs or posts an order.
\<close>

theorem execute_market_order_existing_position:
  "(get_token_balance env tok > 0 \<longleftrightarrow> balance_call_ok env tok \<and> wallet_balance env tok > 0)
   \<and> (token_to_buy env m trade_side = Some tok \<and> get_token_balance env tok > 0 \<longrightarrow>
        fst (execute_market_order env dry_run m trade_side amount log0) = None
        \<and> filter is_order_call (snd (execute_market_order env dry_run m trade_side amount log0))
            = filter is_order_call log0)"
  by (simp add: get_token_balance_pos execute_market_order_def Let_def)

theorem execute_market_order_existing_position_witness:
  "token_to_buy (example_venue True) market_A None = Some ''12''
   \<and> get_token_balance (example_venue True) ''12'' > 0
   \<and> fst (execute_market_order (example_venue True) False market_A None 1 []) = None
   \<and> filter is_order_call
        (snd (execute_market_order (example_venue True) False market_A None 1 [])) = []"
proof -
  have h1: "token_to_buy (example_venue True) market_A None = Some ''12''"
    by (simp add: token_to_buy_def example_venue_def market_A_def index_opt_def)
  have h2: "get_token_balance (example_venue True) ''12'' > 0"
    by (simp add: get_token_balance_def example_venue_def)
  show ?thesis
    using h1 h2
      execute_market_order_existing_position
        [of "example_venue True" "''12''" market_A None False 1 "[]"]
    by simp
qed

text \<open>
  C10 as the specification words it, with the balance the wallet holds in the
  hypothesis, does not hold: when the wallet holds 10 units of the token but the balance
  lookup raises, \<open>get_token_balance\<close> answers 0.0 and the order is created and posted.
\<close>

theorem execute_market_order_counterexample:
  "token_to_buy (example_venue False) market_A None = Some ''12''
   \<and> wallet_balance (example_venue False) ''12'' > 0
   \<and> execute_market_order (example_venue False) False market_A None 1 []
       = (Some (OrderResponse ''ok''),
          [ExecuteMarketOrder 1, CreateOrder ''12'' 5 0.5, PostOrder ''12'' 5 0.5])"
  by (simp add: execute_market_order_def token_to_buy_def get_token_balance_def
      example_venue_def market_A_def index_opt_def Let_def)

section \<open>Properties of the DecisionOrchestrator\<close>

subsection \<open>Dry run\<close>

lemma analyze_markets_dry_run_log:
  "snd (analyze_markets env True ms log0) = log0"
  by (induction ms) (auto simp: Let_def split: sum.splits option.splits)

lemma cycle_body_dry_run_log: "snd (cycle_body env True log0) = log0"
proof -
  have *: "snd (case analyze_markets env True ms log0 of
               (Some r, log1) \<Rightarrow> (Inr r, log1)
             | (None, log1) \<Rightarrow> (Inr (NoEligibleTrades n), log1)) = log0" for ms n
    using analyze_markets_dry_run_log [of env ms log0]
    by (cases "analyze_markets env True ms log0") (auto split: option.splits)
  show ?thesis
    by (simp add: cycle_body_def Let_def * split: sum.splits)
qed

lemma run_autonomous_trading_dry_run_state:
  "snd (run_autonomous_trading env True s) = s"
  using cycle_body_dry_run_log [of env "venue_log s"]
  by (cases "cycle_body env True (venue_log s)") (simp add: run_autonomous_trading_def Let_def)

lemma run_cycles_dry_run_state: "run_cycles envs True s = s"
  by (induction envs arbitrary: s) (simp_all add: run_autonomous_trading_dry_run_state)

text \<open>
  C6. A cycle invoked with \<open>dry_run = True\<close> makes no call to the venue: the log of
  venue calls after the cycle is the log before it, whatever the collaborators answer,
  and so it is after any number of such cycles. (The whole state is unchanged, the
  trader's flag being restored.)
\<close>

theorem dry_run_never_submits:
  "venue_log (snd (run_autonomous_trading env True s)) = venue_log s
   \<and> venue_log (run_cycles envs True s) = venue_log s
   \<and> snd (run_autonomous_trading env True s) = s
   \<and> run_cycles envs True s = s"
  by (simp add: run_autonomous_trading_dry_run_state run_cycles_dry_run_state)

theorem dry_run_never_submits_witness:
  "venue_log (run_cycles [example_env, example_env, example_env] True example_state) = []
   \<and> venue_log (snd (run_autonomous_trading example_env True example_state)) = []"
  using dry_run_never_submits [of example_env example_state "[example_env, example_env, example_env]"]
  by (simp add: example_state_def)

text \<open>
  The log does record the calls of a live cycle: with the same collaborators and
  \<open>dry_run = False\<close> the order for market A is created and posted. The client's own
  flag (\<^verbatim>\<open>DRY_RUN\<close> of the environment, true here) is looked at only after the order
  has been posted, and turns the returned value into the simulated one.
\<close>

lemma live_cycle_posts:
  "run_autonomous_trading example_env False example_state
     = (Inr (LiveTrade \<lparr> market_question = replicate 120 (CHR ''q''), action_position = ''YES'',
                          target_price = 0.55, decision_edge = 0.25,
                          decision_confidence = 0.8 \<rparr> (Some Simulated)),
        \<lparr> trader_dry_run = False,
          venue_log = [ExecuteMarketOrder 1, CreateOrder ''12'' 5 0.5, PostOrder ''12'' 5 0.5] \<rparr>)"
  by (simp add: run_autonomous_trading_def cycle_body_def Polymarket_get_all_events_def
      example_env_def example_state_def example_venue_def market_A_def market_C_def
      execute_market_order_def token_to_buy_def get_token_balance_def index_opt_def Let_def)

subsection \<open>Failures of single items\<close>

lemma analyze_markets_raises:
  "candidate_raises env x \<Longrightarrow>
     analyze_markets env dry_run (x # ms) log0 = analyze_markets env dry_run ms log0"
  by (auto simp: candidate_raises_def Let_def split: sum.splits option.splits)

lemma analyze_markets_cong:
  "analyze_markets env dry_run ms log0 = analyze_markets env dry_run ms' log0 \<Longrightarrow>
     analyze_markets env dry_run (x # ms) log0 = analyze_markets env dry_run (x # ms') log0"
  by (simp add: Let_def split: sum.splits option.splits)

lemma analyze_markets_skip:
  "analyze_markets env dry_run ms log0
     = analyze_markets env dry_run (filter (\<lambda>x. \<not> candidate_raises env x) ms) log0"
proof (induction ms)
  case Nil
  show ?case by simp
next
  case (Cons x ms)
  show ?case
  proof (cases "candidate_raises env x")
    case True
    then show ?thesis
      using Cons.IH by (simp only: analyze_markets_raises filter.simps if_True if_False not_True_eq_False)
  next
    case False
    then show ?thesis
      using analyze_markets_cong [OF Cons.IH, of x] by simp
  qed
qed

lemma collect_high_quality_skip:
  "collect_high_quality env events
     = collect_high_quality env (filter (\<lambda>ev. \<not> event_raises env ev) events)"
  by (induction events) (auto simp: event_raises_def split: sum.splits option.splits)

lemma cycle_body_total:
  assumes "pre_trade_logic_ok env"
    and "\<forall>x. \<not> isl (filter_events_with_rag env x)"
    and "\<forall>x. \<not> isl (map_filtered_events_to_markets env x)"
    and "\<forall>x. \<not> isl (filter_markets env x)"
  shows "\<exists>r. fst (cycle_body env dry_run log0) = Inr r"
proof -
  have *: "\<exists>r. fst (case analyze_markets env dry_run ms log0 of
               (Some r, log1) \<Rightarrow> (Inr r, log1)
             | (None, log1) \<Rightarrow> (Inr (NoEligibleTrades n), log1)) = Inr r" for ms n
    by (cases "analyze_markets env dry_run ms log0") (auto split: option.splits)
  show ?thesis
    using assms * unfolding cycle_body_def Let_def
    by (auto split: sum.splits simp: isl_def)
qed

text \<open>
  C8. An event whose processing raises is passed over: the first loop gives what it
  gives on the events without it. A candidate whose analysis raises is passed over: the
  second loop gives what it gives on the candidates without it. And when the stages
  of the cycle themselves do not raise (\<open>pre_trade_logic\<close> and the three stages of the
  agent between the loops), the cycle returns a result, a trade decision or one of the
  two no-opportunity results, and no exception, whichever events and candidates raise.
\<close>

theorem cycle_tolerates_item_failures:
  "collect_high_quality env events
     = collect_high_quality env (filter (\<lambda>ev. \<not> event_raises env ev) events)
   \<and> analyze_markets env dry_run ms log0
     = analyze_markets env dry_run (filter (\<lambda>x. \<not> candidate_raises env x) ms) log0
   \<and> (pre_trade_logic_ok env
        \<and> (\<forall>x. \<not> isl (filter_events_with_rag env x))
        \<and> (\<forall>x. \<not> isl (map_filtered_events_to_markets env x))
        \<and> (\<forall>x. \<not> isl (filter_markets env x))
        \<longrightarrow> (\<exists>r. fst (run_autonomous_trading env dry_run s) = Inr r))"
proof (intro conjI impI)
  show "collect_high_quality env events
     = collect_high_quality env (filter (\<lambda>ev. \<not> event_raises env ev) events)"
    by (rule collect_high_quality_skip)
next
  show "analyze_markets env dry_run ms log0
     = analyze_markets env dry_run (filter (\<lambda>x. \<not> candidate_raises env x) ms) log0"
    by (rule analyze_markets_skip)
next
  assume a: "pre_trade_logic_ok env
        \<and> (\<forall>x. \<not> isl (filter_events_with_rag env x))
        \<and> (\<forall>x. \<not> isl (map_filtered_events_to_markets env x))
        \<and> (\<forall>x. \<not> isl (filter_markets env x))"
  then obtain r where "fst (cycle_body env dry_run (venue_log s)) = Inr r"
    using cycle_body_total [of env dry_run "venue_log s"] by blast
  then show "\<exists>r. fst (run_autonomous_trading env dry_run s) = Inr r"
    by (cases "cycle_body env dry_run (venue_log s)")
       (simp add: run_autonomous_trading_def Let_def)
qed

theorem cycle_tolerates_item_failures_witness:
  "pre_trade_logic_ok example_env
   \<and> (\<forall>x. \<not> isl (filter_events_with_rag example_env x))
   \<and> (\<forall>x. \<not> isl (map_filtered_events_to_markets example_env x))
   \<and> (\<forall>x. \<not> isl (filter_markets example_env x))
   \<and> candidate_raises example_env (market_C, 1)
   \<and> \<not> candidate_raises example_env (market_A, 1)
   \<and> analyze_markets example_env True [(market_C, 1), (market_A, 1)] []
       = analyze_markets example_env True [(market_A, 1)] []
   \<and> (\<exists>r. fst (run_autonomous_trading example_env True example_state) = Inr r)"
proof -
  have h: "pre_trade_logic_ok example_env"
    "\<forall>x. \<not> isl (filter_events_with_rag example_env x)"
    "\<forall>x. \<not> isl (map_filtered_events_to_markets example_env x)"
    "\<forall>x. \<not> isl (filter_markets example_env x)"
    by (simp_all add: example_env_def)
  have c: "candidate_raises example_env (market_C, 1)"
    "\<not> candidate_raises example_env (market_A, 1)"
    by (simp_all add: candidate_raises_def example_env_def market_A_def market_C_def)
  from c have f: "filter (\<lambda>x. \<not> candidate_raises example_env x) [(market_C, 1), (market_A, 1)]
      = [(market_A, 1)]"
    by simp
  show ?thesis
    using h c
      cycle_tolerates_item_failures
        [of example_env "[]" True "[(market_C, 1), (market_A, 1)]" "[]" example_state]
    unfolding f by blast
qed

text \<open>
  The same cycle evaluated: the event of market 1 and the candidate C raise, and the
  cycle returns the decision for A.
\<close>

lemma example_cycle_decision:
  "event_raises example_env
     \<lparr> event_id = ''1'', title = ''Q1'', event_description = '''', event_markets = ''1'',
       event_volume = 20000, event_featured = False \<rparr>
   \<and> fst (run_autonomous_trading example_env True example_state)
       = Inr (DryRunDecision \<lparr> market_question = replicate 120 (CHR ''q''),
                action_position = ''YES'', target_price = 0.55, decision_edge = 0.25,
                decision_confidence = 0.8 \<rparr>)"
  by (simp add: run_autonomous_trading_def cycle_body_def Polymarket_get_all_events_def
      event_raises_def example_env_def example_state_def market_A_def market_C_def Let_def)

end
